theory Spec2Isabelle
  imports Main "HOL-Library.Monad_Syntax"
begin

section \<open>JavaScript values\<close>

text \<open>
  The page handles agent replies as values of type \<open>any\<close>. They are modelled by the
  datatype below: the JSON values, plus \<open>undefined\<close>, which is what reading a missing
  property gives. Numbers are the integers (scores, counts and thresholds of the page are
  integers); strings are lists of characters; an object is the list of its own properties,
  read with \<open>map_of\<close>. Properties inherited from the built-in prototypes
  (\<open>toString\<close>, \<open>constructor\<close>, ...) are outside the model, and \<open>===\<close> is
  modelled by equality of values.
\<close>

datatype jsval =
    JUndefined
  | JNull
  | JBool bool
  | JNum int
  | JStr string
  | JArr "jsval list"
  | JObj "(string \<times> jsval) list"

text \<open>\<open>!v\<close> is \<open>\<not> truthy v\<close>; \<open>v != null\<close> is \<open>\<not> nullish v\<close>.\<close>

fun truthy :: "jsval \<Rightarrow> bool" where
  "truthy JUndefined = False"
| "truthy JNull = False"
| "truthy (JBool b) = b"
| "truthy (JNum n) = (n \<noteq> 0)"
| "truthy (JStr s) = (s \<noteq> [])"
| "truthy (JArr xs) = True"
| "truthy (JObj kvs) = True"

fun nullish :: "jsval \<Rightarrow> bool" where
  "nullish JUndefined = True"
| "nullish JNull = True"
| "nullish v = False"

fun typeof :: "jsval \<Rightarrow> string" where
  "typeof JUndefined = ''undefined''"
| "typeof JNull = ''object''"
| "typeof (JBool b) = ''boolean''"
| "typeof (JNum n) = ''number''"
| "typeof (JStr s) = ''string''"
| "typeof (JArr xs) = ''object''"
| "typeof (JObj kvs) = ''object''"

fun isArray :: "jsval \<Rightarrow> bool" where
  "isArray (JArr xs) = True"
| "isArray v = False"

text \<open>\<open>a ?? b\<close> and \<open>a || b\<close>.\<close>

definition nullish_or :: "jsval \<Rightarrow> jsval \<Rightarrow> jsval" where
  "nullish_or a b = (if nullish a then b else a)"

definition falsy_or :: "jsval \<Rightarrow> jsval \<Rightarrow> jsval" where
  "falsy_or a b = (if truthy a then a else b)"

subsection \<open>Decimal numerals and conversion to string\<close>

definition digit_char :: "nat \<Rightarrow> char" where
  "digit_char n = ''0123456789'' ! (n mod 10)"

fun string_of_nat :: "nat \<Rightarrow> string" where
  "string_of_nat n =
     (if n < 10 then [digit_char n] else string_of_nat (n div 10) @ [digit_char n])"

definition string_of_int :: "int \<Rightarrow> string" where
  "string_of_int i = (if i < 0 then CHR ''-'' # string_of_nat (nat (- i)) else string_of_nat (nat i))"

fun join_comma :: "string list \<Rightarrow> string" where
  "join_comma [] = []"
| "join_comma [s] = s"
| "join_comma (s # t # ts) = s @ '','' @ join_comma (t # ts)"

text \<open>What a template literal \<open>${v}\<close> and \<open>String(v)\<close> make of a value.\<close>

fun to_string :: "jsval \<Rightarrow> string" where
  "to_string JUndefined = ''undefined''"
| "to_string JNull = ''null''"
| "to_string (JBool b) = (if b then ''true'' else ''false'')"
| "to_string (JNum n) = string_of_int n"
| "to_string (JStr s) = s"
| "to_string (JArr xs) = join_comma (map (\<lambda>x. if nullish x then [] else to_string x) xs)"
| "to_string (JObj kvs) = ''[object Object]''"

subsection \<open>Reading properties\<close>

text \<open>
  \<open>get_prop v k\<close> is \<open>v[k]\<close> for a value other than \<open>null\<close> and \<open>undefined\<close>: an
  object's own property, an array's element or length, a string's character or length,
  and \<open>undefined\<close> for anything else.
\<close>

definition index_of_key :: "nat \<Rightarrow> string \<Rightarrow> nat option" where
  "index_of_key n k = List.find (\<lambda>i. string_of_nat i = k) [0..<n]"

fun get_prop :: "jsval \<Rightarrow> string \<Rightarrow> jsval" where
  "get_prop (JObj kvs) k = (case map_of kvs k of Some v \<Rightarrow> v | None \<Rightarrow> JUndefined)"
| "get_prop (JArr xs) k =
     (if k = ''length'' then JNum (int (length xs))
      else case index_of_key (length xs) k of Some i \<Rightarrow> xs ! i | None \<Rightarrow> JUndefined)"
| "get_prop (JStr s) k =
     (if k = ''length'' then JNum (int (length s))
      else case index_of_key (length s) k of Some i \<Rightarrow> JStr [s ! i] | None \<Rightarrow> JUndefined)"
| "get_prop v k = JUndefined"

text \<open>
  An expression that can throw has an \<open>option\<close> type: \<open>None\<close> is a thrown
  \<open>TypeError\<close>, the only exception these expressions raise, and \<open>Some v\<close> the value.
  \<open>member v k\<close> is \<open>v.k\<close> and \<open>v[k]\<close>, which throw on \<open>null\<close> and
  \<open>undefined\<close>; \<open>opt_member v k\<close> is \<open>v?.k\<close>, which does not; \<open>in_op k v\<close> is
  \<open>k in v\<close>, which throws unless \<open>v\<close> is an object or an array.
\<close>

definition member :: "jsval \<Rightarrow> string \<Rightarrow> jsval option" where
  "member v k = (if nullish v then None else Some (get_prop v k))"

definition opt_member :: "jsval \<Rightarrow> string \<Rightarrow> jsval" where
  "opt_member v k = (if nullish v then JUndefined else get_prop v k)"

fun in_op :: "string \<Rightarrow> jsval \<Rightarrow> bool option" where
  "in_op k (JObj kvs) = Some (k \<in> fst ` set kvs)"
| "in_op k (JArr xs) = Some (k = ''length'' \<or> index_of_key (length xs) k \<noteq> None)"
| "in_op k v = None"

section \<open>Deep response extractor\<close>

text \<open>
  \<open>JSON.parse\<close> belongs to the language, not to the page: it is a parameter
  \<open>parse\<close>, with \<open>None\<close> for a text it rejects (the \<open>SyntaxError\<close> that
  \<open>tryParse\<close> catches). Everything below holds for every such function.
\<close>

type_synonym json_parse = "string \<Rightarrow> jsval option"

definition isMatch :: "string \<Rightarrow> jsval \<Rightarrow> bool option" where
  "isMatch validatorKey obj =
     (if \<not> truthy obj \<or> typeof obj \<noteq> ''object'' \<or> isArray obj then Some False
      else in_op validatorKey obj)"

definition tryParse :: "json_parse \<Rightarrow> jsval \<Rightarrow> jsval" where
  "tryParse parse str =
     (if typeof str \<noteq> ''string'' then JNull
      else case str of
             JStr s \<Rightarrow> (case parse s of Some v \<Rightarrow> v | None \<Rightarrow> JNull)
           | _ \<Rightarrow> JNull)"

definition wrapperKeys :: "string list" where
  "wrapperKeys =
     [''result'', ''response'', ''data'', ''output'', ''content'', ''message'', ''text'',
      ''raw_response'']"

declare Option.bind_cong [fundef_cong]

text \<open>
  \<open>deepSearch\<close> with its loop over the wrapper keys, \<open>probeWrapperKeys\<close>, which
  carries the keys still to try.
\<close>

function deepSearch :: "json_parse \<Rightarrow> string \<Rightarrow> jsval \<Rightarrow> nat \<Rightarrow> jsval option"
  and probeWrapperKeys ::
    "json_parse \<Rightarrow> string \<Rightarrow> jsval \<Rightarrow> nat \<Rightarrow> string list \<Rightarrow> jsval option"
where
  "deepSearch parse validatorKey obj depth =
     (if depth > 6 \<or> \<not> truthy obj then Some JNull
      else if typeof obj = ''string'' then
        (let parsed = tryParse parse obj in
         do {
           m \<leftarrow> (if truthy parsed then isMatch validatorKey parsed else Some False);
           if m then Some parsed
           else if truthy parsed then deepSearch parse validatorKey parsed (depth + 1)
           else Some JNull
         })
      else if typeof obj \<noteq> ''object'' then Some JNull
      else do {
        m \<leftarrow> isMatch validatorKey obj;
        if m then Some obj
        else probeWrapperKeys parse validatorKey obj depth wrapperKeys
      })"
| "probeWrapperKeys parse validatorKey obj depth [] = Some JNull"
| "probeWrapperKeys parse validatorKey obj depth (key # keys) =
     do {
       v \<leftarrow> member obj key;
       if nullish v then probeWrapperKeys parse validatorKey obj depth keys
       else do {
         found \<leftarrow> deepSearch parse validatorKey v (depth + 1);
         if truthy found then Some found
         else probeWrapperKeys parse validatorKey obj depth keys
       }
     }"
  by pat_completeness auto
termination
  by (relation "inv_image (less_than <*lex*> less_than)
        (\<lambda>x. case x of
           Inl (parse, validatorKey, obj, depth) \<Rightarrow> (2 * (7 - depth), 0)
         | Inr (parse, validatorKey, obj, depth, keys) \<Rightarrow> (2 * (6 - depth) + 1, length keys))")
     auto

text \<open>The five fallback locations of \<open>extractAgentData\<close>, tried in order.\<close>

definition extractAgentData :: "json_parse \<Rightarrow> jsval \<Rightarrow> string \<Rightarrow> jsval option" where
  "extractAgentData parse result validatorKey =
     (if \<not> truthy result then Some JNull
      else
        let directResult = opt_member (opt_member result ''response'') ''result'' in
        do {
          m \<leftarrow> isMatch validatorKey directResult;
          if m then Some directResult
          else do {
            deepInResult \<leftarrow> deepSearch parse validatorKey directResult 0;
            if truthy deepInResult then Some deepInResult
            else do {
              fromResponse \<leftarrow> deepSearch parse validatorKey (opt_member result ''response'') 0;
              if truthy fromResponse then Some fromResponse
              else do {
                fromRaw \<leftarrow>
                  (if truthy (opt_member result ''raw_response'') then
                     do {
                       raw \<leftarrow> member result ''raw_response'';
                       deepSearch parse validatorKey raw 0
                     }
                   else Some JNull);
                if truthy fromRaw then Some fromRaw
                else do {
                  fromTopLevel \<leftarrow> deepSearch parse validatorKey result 0;
                  if truthy fromTopLevel then Some fromTopLevel
                  else Some JNull
                }
              }
            }
          }
        })"

section \<open>Strings\<close>

text \<open>
  \<open>toLowerCase\<close> on the ASCII letters, \<open>includes\<close> as a search for a contiguous
  occurrence, and \<open>slice(0, n)\<close> as \<open>take n\<close>. Calling \<open>toLowerCase\<close> on a value
  that is not a string throws.
\<close>

definition lower_char :: "char \<Rightarrow> char" where
  "lower_char c =
     (case map_of (zip ''ABCDEFGHIJKLMNOPQRSTUVWXYZ'' ''abcdefghijklmnopqrstuvwxyz'') c of
        Some l \<Rightarrow> l
      | None \<Rightarrow> c)"

definition toLowerCase :: "string \<Rightarrow> string" where
  "toLowerCase s = map lower_char s"

fun call_toLowerCase :: "jsval \<Rightarrow> string option" where
  "call_toLowerCase (JStr s) = Some (toLowerCase s)"
| "call_toLowerCase v = None"

fun str_includes :: "string \<Rightarrow> string \<Rightarrow> bool" where
  "str_includes [] t = (t = [])"
| "str_includes (c # cs) t = (take (length t) (c # cs) = t \<or> str_includes cs t)"

section \<open>Data of the page\<close>

text \<open>
  The interfaces \<open>ThreadDraft\<close>, \<open>ManagerResponse\<close> and \<open>PublishRecord\<close>. A field
  holds a \<open>jsval\<close> where the page stores whatever the agent sent; it has a HOL type
  where the page's own code fixes the type (\<open>requires_review\<close> is the result of
  \<open>=== true\<close>, \<open>relevance_score\<close> has passed \<open>typeof ... === 'number'\<close>, the three
  lists have passed \<open>Array.isArray\<close>).
\<close>

record thread_draft =
  td_id :: jsval
  title :: jsval
  classification :: jsval
  thread_content :: jsval
  hashtags :: jsval
  hook :: jsval
  requires_review :: bool
  review_reason :: jsval
  source_url :: jsval
  relevance_score :: int

record hn_results_t =
  stories :: "jsval list"
  hn_total_fetched :: jsval
  hn_total_filtered :: jsval

record arxiv_results_t =
  papers :: "jsval list"
  arxiv_total_fetched :: jsval
  arxiv_total_filtered :: jsval

record manager_response =
  pipeline_status :: jsval
  hn_results :: hn_results_t
  arxiv_results :: arxiv_results_t
  thread_drafts :: "thread_draft list"
  total_drafts :: jsval
  auto_approved :: jsval
  flagged_for_review :: jsval
  scan_timestamp :: jsval

datatype publish_status = Pending | Posting | Success | Failed

record publish_record =
  draftId :: jsval
  title_pr :: jsval
  status :: publish_status
  tweetUrl :: jsval
  timestamp :: jsval
  errorMessage :: jsval

record app_settings =
  relevanceThreshold :: int
  categories :: "string list"
  sources :: "string list"
  autoApproveThreshold :: int
  maxThreadsPerScan :: int
  threadStyle :: string
  blockedDomains :: string

definition DEFAULT_SETTINGS :: app_settings where
  "DEFAULT_SETTINGS =
     \<lparr> relevanceThreshold = 50,
       categories = [''AI/ML'', ''Cybersecurity'', ''Startups'', ''Developer Tools'', ''Research''],
       sources = [''HN Top'', ''HN New'', ''Ask HN'', ''Show HN'', ''HN Jobs'', ''arXiv''],
       autoApproveThreshold = 75,
       maxThreadsPerScan = 10,
       threadStyle = ''Professional'',
       blockedDomains = [] \<rparr>"

definition MANAGER_AGENT_ID :: string where
  "MANAGER_AGENT_ID = ''69995e040ab3a50ca24853ef''"

definition TWITTER_AGENT_ID :: string where
  "TWITTER_AGENT_ID = ''69995e05746ef9435cac7e1d''"

subsection \<open>State of the component\<close>

text \<open>
  The \<open>useState\<close> cells that the scan and publish handlers read or write, with their
  initial values. \<open>scanError\<close> is \<open>JNull\<close> or the stored error. The cells these
  handlers never touch (active tab, filters, selection, expansion, debug switch) are left
  out, and so is the timer that clears the status message after six seconds.
\<close>

datatype scan_status = ScanIdle | ScanScanning | ScanCompleted | ScanFailed

datatype message_type = MsgSuccess | MsgError | MsgInfo

record app_state =
  scanStatus :: scan_status
  scanStep :: nat
  scanData :: "manager_response option"
  scanError :: jsval
  activeAgentId :: "string option"
  showSample :: bool
  approvedDraftIds :: "jsval set"
  publishHistory :: "publish_record list"
  publishingIds :: "jsval set"
  settings :: app_settings
  statusMessage :: "(message_type \<times> string) option"
  lastRawResponse :: "string option"

definition initial_state :: app_state where
  "initial_state =
     \<lparr> scanStatus = ScanIdle, scanStep = 0, scanData = None, scanError = JNull,
       activeAgentId = None, showSample = False, approvedDraftIds = {},
       publishHistory = [], publishingIds = {}, settings = DEFAULT_SETTINGS,
       statusMessage = None, lastRawResponse = None \<rparr>"

subsection \<open>The agent caller and the language runtime\<close>

text \<open>
  \<open>callAIAgent\<close> is an external collaborator. A call either rejects with a thrown
  value or resolves to a result; the outcome also tells how long the call took and what
  \<open>new Date().toISOString()\<close> reads once it is over. The agent may answer a call
  depending on the calls made before it. The world is the component's state together
  with the log of agent calls.
\<close>

datatype thrown = ErrorObject string | OtherThrown

datatype agent_reply = Rejected thrown | Resolved jsval

record agent_outcome =
  reply :: agent_reply
  elapsed_ms :: nat
  finished_at :: string

type_synonym agent_call = "string \<times> string"

type_synonym agent = "agent_call list \<Rightarrow> agent_call \<Rightarrow> agent_outcome"

record world =
  app :: app_state
  calls :: "agent_call list"

text \<open>
  The runtime: \<open>JSON.parse\<close>; \<open>JSON.stringify(v, null, 2)\<close>, with \<open>None\<close> where
  it throws or gives \<open>undefined\<close>; and the message text of a \<open>TypeError\<close>.
\<close>

record js_engine =
  JSON_parse :: json_parse
  JSON_stringify :: "jsval \<Rightarrow> string option"
  type_error_message :: string

text \<open>\<open>err instanceof Error ? err.message : 'Network error'\<close>\<close>

fun caught_message :: "thrown \<Rightarrow> string" where
  "caught_message (ErrorObject m) = m"
| "caught_message OtherThrown = ''Network error''"

section \<open>Scan handler\<close>

subsection \<open>Sanitization\<close>

text \<open>
  The callback of \<open>thread_drafts.map\<close>. The read \<open>d.relevance_score\<close> is guarded by
  \<open>typeof d?.relevance_score === 'number'\<close>, so it gives the number just tested.
\<close>

definition sanitizeDraft :: "jsval \<Rightarrow> nat \<Rightarrow> thread_draft" where
  "sanitizeDraft d idx =
     \<lparr> td_id = nullish_or (opt_member d ''id'') (JStr (''draft-'' @ string_of_nat (idx + 1))),
       title = nullish_or (opt_member d ''title'') (JStr ''Untitled''),
       classification = nullish_or (opt_member d ''classification'') (JStr ''TECH DEEP DIVE''),
       thread_content = nullish_or (opt_member d ''thread_content'') (JStr []),
       hashtags = nullish_or (opt_member d ''hashtags'') (JStr []),
       hook = nullish_or (opt_member d ''hook'') (JStr []),
       requires_review = (opt_member d ''requires_review'' = JBool True),
       review_reason = nullish_or (opt_member d ''review_reason'') (JStr []),
       source_url = nullish_or (opt_member d ''source_url'') (JStr []),
       relevance_score = (case opt_member d ''relevance_score'' of JNum n \<Rightarrow> n | _ \<Rightarrow> 50) \<rparr>"

text \<open>
  The object literal \<open>sanitized\<close> of \<open>runScan\<close>. Every read \<open>responseData.f\<close> can
  throw; each property is read once here, the source reads some of them again and gets
  the same value. The reads \<open>responseData.hn_results.stories\<close> and
  \<open>responseData.arxiv_results.papers\<close> are guarded by \<open>Array.isArray\<close> of the same
  property read with \<open>?.\<close>. \<open>now\<close> is \<open>new Date().toISOString()\<close>.
\<close>

definition sanitize :: "string \<Rightarrow> jsval \<Rightarrow> manager_response option" where
  "sanitize now responseData =
     do {
       ps \<leftarrow> member responseData ''pipeline_status'';
       hn \<leftarrow> member responseData ''hn_results'';
       ar \<leftarrow> member responseData ''arxiv_results'';
       td \<leftarrow> member responseData ''thread_drafts'';
       total \<leftarrow> member responseData ''total_drafts'';
       approved \<leftarrow> member responseData ''auto_approved'';
       flagged \<leftarrow> member responseData ''flagged_for_review'';
       ts \<leftarrow> member responseData ''scan_timestamp'';
       Some
         \<lparr> pipeline_status = nullish_or ps (JStr ''completed''),
           hn_results =
             \<lparr> stories = (case opt_member hn ''stories'' of JArr xs \<Rightarrow> xs | _ \<Rightarrow> []),
               hn_total_fetched = nullish_or (opt_member hn ''total_fetched'') (JNum 0),
               hn_total_filtered = nullish_or (opt_member hn ''total_filtered'') (JNum 0) \<rparr>,
           arxiv_results =
             \<lparr> papers = (case opt_member ar ''papers'' of JArr xs \<Rightarrow> xs | _ \<Rightarrow> []),
               arxiv_total_fetched = nullish_or (opt_member ar ''total_fetched'') (JNum 0),
               arxiv_total_filtered = nullish_or (opt_member ar ''total_filtered'') (JNum 0) \<rparr>,
           thread_drafts =
             (case td of
                JArr ds \<Rightarrow> map (\<lambda>(idx, d). sanitizeDraft d idx) (enumerate 0 ds)
              | _ \<Rightarrow> []),
           total_drafts =
             nullish_or total (JNum (case td of JArr ds \<Rightarrow> int (length ds) | _ \<Rightarrow> 0)),
           auto_approved = nullish_or approved (JNum 0),
           flagged_for_review = nullish_or flagged (JNum 0),
           scan_timestamp = nullish_or ts (JStr now) \<rparr>
     }"

subsection \<open>runScan\<close>

text \<open>
  \<open>responseData && (Array.isArray(responseData.thread_drafts) || responseData.hn_results
  || responseData.arxiv_results)\<close>
\<close>

definition hasPipelineResults :: "jsval \<Rightarrow> bool option" where
  "hasPipelineResults responseData =
     (if \<not> truthy responseData then Some False
      else do {
        td \<leftarrow> member responseData ''thread_drafts'';
        if isArray td then Some True
        else do {
          hn \<leftarrow> member responseData ''hn_results'';
          if truthy hn then Some True
          else do {
            ar \<leftarrow> member responseData ''arxiv_results'';
            Some (truthy ar)
          }
        }
      })"

text \<open>The free text shown when no structured data was found; each read is guarded.\<close>

definition rawText :: "jsval \<Rightarrow> string" where
  "rawText result =
     (let response = opt_member result ''response'' in
      case opt_member response ''message'' of
        JStr s \<Rightarrow> s
      | _ \<Rightarrow>
         (case opt_member response ''result'' of
            JStr s \<Rightarrow> s
          | _ \<Rightarrow>
             (case opt_member (opt_member response ''result'') ''text'' of
                JStr s \<Rightarrow> s
              | _ \<Rightarrow> [])))"

definition scanMessage :: "app_settings \<Rightarrow> string" where
  "scanMessage st =
     ''Run a comprehensive intelligence scan of Hacker News and arXiv for trending AI, cybersecurity, startups, and breakthrough innovation content. Fetch, filter, score, classify, and generate Twitter thread drafts for all high-signal items. Relevance threshold: ''
     @ string_of_int (relevanceThreshold st) @ ''. Max threads: ''
     @ string_of_int (maxThreadsPerScan st) @ ''. Style: '' @ threadStyle st @ ''.''"

text \<open>The \<open>forEach\<close> that fills \<open>autoApproved\<close>, starting from \<open>new Set()\<close>.\<close>

definition autoApprove :: "int \<Rightarrow> thread_draft list \<Rightarrow> jsval set" where
  "autoApprove threshold ds =
     foldl (\<lambda>autoApproved d.
              if \<not> requires_review d \<and> relevance_score d \<ge> threshold
              then insert (td_id d) autoApproved else autoApproved)
       {} ds"

text \<open>
  The step shown when the call is over: the timers set it to 2, 3 and 4 after 3, 8 and
  15 seconds, and are cleared then.
\<close>

definition stepShown :: "nat \<Rightarrow> nat" where
  "stepShown ms = (if ms \<ge> 15000 then 4 else if ms \<ge> 8000 then 3 else if ms \<ge> 3000 then 2 else 1)"

text \<open>
  The body of \<open>try\<close> from \<open>if (result.success)\<close> on; \<open>None\<close> is a thrown
  \<open>TypeError\<close>. Every expression that can throw is evaluated before the first state
  update of its branch.
\<close>

definition scanResolved :: "js_engine \<Rightarrow> string \<Rightarrow> jsval \<Rightarrow> app_state \<Rightarrow> app_state option" where
  "scanResolved eng now result s =
     do {
       success \<leftarrow> member result ''success'';
       if truthy success then
         do {
           responseData \<leftarrow> extractAgentData (JSON_parse eng) result ''pipeline_status'';
           found \<leftarrow> hasPipelineResults responseData;
           if found then
             do {
               sanitized \<leftarrow> sanitize now responseData;
               Some (s\<lparr> scanData := Some sanitized,
                        scanStatus := ScanCompleted,
                        scanStep := 5,
                        statusMessage :=
                          Some (MsgSuccess,
                            ''Scan complete! Found '' @ to_string (total_drafts sanitized)
                            @ '' thread drafts from ''
                            @ string_of_nat (length (stories (hn_results sanitized)))
                            @ '' HN stories and ''
                            @ string_of_nat (length (papers (arxiv_results sanitized)))
                            @ '' arXiv papers.''),
                        approvedDraftIds :=
                          autoApprove (autoApproveThreshold (settings s)) (thread_drafts sanitized) \<rparr>)
             }
           else
             Some (s\<lparr> scanStatus := ScanFailed,
                      scanError :=
                        JStr (''Agent returned data but no structured pipeline results were found. Raw: ''
                              @ take 300 (rawText result)),
                      statusMessage :=
                        Some (MsgError, ''Scan returned unstructured data. Try running the scan again.'') \<rparr>)
         }
       else
         Some (s\<lparr> scanStatus := ScanFailed,
                  scanError :=
                    nullish_or (nullish_or (opt_member result ''error'')
                                  (opt_member (opt_member result ''response'') ''message''))
                      (JStr ''Unknown error occurred''),
                  statusMessage :=
                    Some (MsgError,
                      ''Scan failed: ''
                      @ to_string
                          (nullish_or (nullish_or (opt_member result ''error'')
                                         (opt_member (opt_member result ''response'') ''message''))
                             (JStr ''Unknown error''))) \<rparr>)
     }"

text \<open>The \<open>catch\<close> block.\<close>

definition scanCaught :: "string \<Rightarrow> app_state \<Rightarrow> app_state" where
  "scanCaught msg s =
     s\<lparr> scanStatus := ScanFailed,
        scanError := JStr msg,
        statusMessage := Some (MsgError, ''Scan failed: '' @ msg) \<rparr>"

definition runScan :: "js_engine \<Rightarrow> agent \<Rightarrow> world \<Rightarrow> world" where
  "runScan eng agent w =
     (let s0 = (app w)\<lparr> scanStatus := ScanScanning,
                        scanStep := 1,
                        scanError := JNull,
                        statusMessage := Some (MsgInfo, ''Intelligence scan in progress...''),
                        activeAgentId := Some MANAGER_AGENT_ID \<rparr>;
          call = (scanMessage (settings (app w)), MANAGER_AGENT_ID);
          outcome = agent (calls w) call;
          s1 = s0\<lparr> scanStep := stepShown (elapsed_ms outcome) \<rparr>;
          s2 = (case reply outcome of
                  Rejected err \<Rightarrow> scanCaught (caught_message err) s1
                | Resolved result \<Rightarrow>
                    (let s1' = s1\<lparr> lastRawResponse :=
                                      Some (case JSON_stringify eng result of
                                              Some t \<Rightarrow> take 5000 t
                                            | None \<Rightarrow> ''Could not serialize response'') \<rparr>
                     in case scanResolved eng (finished_at outcome) result s1' of
                          Some s \<Rightarrow> s
                        | None \<Rightarrow> scanCaught (type_error_message eng) s1'))
      in \<lparr> app = s2\<lparr> activeAgentId := None \<rparr>, calls = calls w @ [call] \<rparr>)"

section \<open>Publish handlers\<close>

definition newline :: string where
  "newline = [CHR 0x0A]"

definition dquote :: string where
  "dquote = [CHR 0x22]"

text \<open>\<open>draft?.title ?? 'Untitled'\<close>, as the status messages show it.\<close>

definition shownTitle :: "thread_draft \<Rightarrow> string" where
  "shownTitle draft = to_string (nullish_or (title draft) (JStr ''Untitled''))"

text \<open>
  \<open>prev.map(p => p.draftId === draftId ? { ...p, ... } : p)\<close>: the update \<open>f\<close> is
  applied to every record of that draft.
\<close>

definition updateRecord ::
  "jsval \<Rightarrow> (publish_record \<Rightarrow> publish_record) \<Rightarrow> publish_record list \<Rightarrow> publish_record list" where
  "updateRecord draft_id f prev = map (\<lambda>p. if draftId p = draft_id then f p else p) prev"

text \<open>
  The message read when the reply has no structured part:
  \<open>result?.response?.message || result?.response?.result?.text ||
  result?.response?.result?.message || ''\<close>
\<close>

definition msgText :: "jsval \<Rightarrow> jsval" where
  "msgText result =
     (let response = opt_member result ''response'' in
      falsy_or
        (falsy_or
           (falsy_or (opt_member response ''message'')
              (opt_member (opt_member response ''result'') ''text''))
           (opt_member (opt_member response ''result'') ''message''))
        (JStr []))"

definition looksSuccessful :: "jsval \<Rightarrow> bool" where
  "looksSuccessful m =
     (case m of
        JStr t \<Rightarrow>
          str_includes (toLowerCase t) ''posted'' \<or> str_includes (toLowerCase t) ''tweet''
          \<or> str_includes (toLowerCase t) ''success''
      | _ \<Rightarrow> False)"

text \<open>
  The body of \<open>try\<close> in \<open>publishThread\<close> from \<open>if (result.success)\<close> on;
  \<open>None\<close> is a thrown \<open>TypeError\<close>, raised before any state update of the branch.
\<close>

definition publishResolved ::
  "js_engine \<Rightarrow> string \<Rightarrow> thread_draft \<Rightarrow> jsval \<Rightarrow> jsval \<Rightarrow> app_state \<Rightarrow> app_state option" where
  "publishResolved eng now draft draft_id result s =
     do {
       success \<leftarrow> member result ''success'';
       if truthy success then
         do {
           twitterData \<leftarrow> extractAgentData (JSON_parse eng) result ''post_status'';
           if truthy twitterData then
             do {
               post_status \<leftarrow> member twitterData ''post_status'';
               lowered \<leftarrow> call_toLowerCase (nullish_or post_status (JStr []));
               tweet_url \<leftarrow> member twitterData ''tweet_url'';
               ts \<leftarrow> member twitterData ''timestamp'';
               error_message \<leftarrow> member twitterData ''error_message'';
               let isSuccess = (lowered = ''success'');
               Some (s\<lparr> publishHistory :=
                          updateRecord draft_id
                            (\<lambda>p. p\<lparr> status := (if isSuccess then Success else Failed),
                                     tweetUrl := nullish_or tweet_url (JStr []),
                                     timestamp := nullish_or ts (JStr now),
                                     errorMessage := nullish_or error_message (JStr []) \<rparr>)
                            (publishHistory s),
                        statusMessage :=
                          (if isSuccess then
                             Some (MsgSuccess,
                               ''Thread '' @ dquote @ shownTitle draft @ dquote
                               @ '' posted successfully!'')
                           else
                             Some (MsgError,
                               ''Failed to post '' @ dquote @ shownTitle draft @ dquote @ '': ''
                               @ to_string (falsy_or error_message (JStr ''Agent reported failure'')))) \<rparr>)
             }
           else
             (let m = msgText result; ok = looksSuccessful m in
              Some (s\<lparr> publishHistory :=
                         updateRecord draft_id
                           (\<lambda>p. p\<lparr> status := (if ok then Success else Failed),
                                    tweetUrl := JStr [],
                                    timestamp := JStr now,
                                    errorMessage :=
                                      (if ok then JStr []
                                       else JStr (''Unstructured response: '' @ take 200 (to_string m))) \<rparr>)
                           (publishHistory s),
                       statusMessage :=
                         (if ok then
                            Some (MsgSuccess,
                              ''Thread '' @ dquote @ shownTitle draft @ dquote
                              @ '' appears to have been posted. Check your Twitter account.'')
                          else
                            Some (MsgError,
                              ''Post response unclear for '' @ dquote @ shownTitle draft @ dquote
                              @ ''. Check your Twitter account.'')) \<rparr>))
         }
       else
         (let e = nullish_or (nullish_or (opt_member result ''error'')
                                (opt_member (opt_member result ''response'') ''message''))
                    (JStr ''Unknown error'')
          in Some (s\<lparr> publishHistory :=
                        updateRecord draft_id (\<lambda>p. p\<lparr> status := Failed, errorMessage := e \<rparr>)
                          (publishHistory s),
                      statusMessage := Some (MsgError, ''Failed to post: '' @ to_string e) \<rparr>))
     }"

text \<open>The \<open>catch\<close> block of \<open>publishThread\<close>.\<close>

definition publishCaught :: "string \<Rightarrow> jsval \<Rightarrow> app_state \<Rightarrow> app_state" where
  "publishCaught msg draft_id s =
     s\<lparr> publishHistory :=
          updateRecord draft_id (\<lambda>p. p\<lparr> status := Failed, errorMessage := JStr msg \<rparr>)
            (publishHistory s),
        statusMessage := Some (MsgError, ''Failed to post: '' @ msg) \<rparr>"

definition publishMessage :: "thread_draft \<Rightarrow> string" where
  "publishMessage draft =
     ''Post this Twitter thread:'' @ newline @ newline
     @ to_string (nullish_or (thread_content draft) (JStr []))
     @ newline @ newline @ ''Hashtags: ''
     @ to_string (nullish_or (hashtags draft) (JStr []))"

definition publishThread :: "js_engine \<Rightarrow> agent \<Rightarrow> thread_draft \<Rightarrow> world \<Rightarrow> world" where
  "publishThread eng agent draft w =
     (let draft_id = nullish_or (td_id draft) (JStr []) in
      if \<not> truthy draft_id then w
      else
        let s0 = (app w)\<lparr> publishingIds := insert draft_id (publishingIds (app w)),
                           publishHistory :=
                             filter (\<lambda>p. draftId p \<noteq> draft_id) (publishHistory (app w))
                             @ [\<lparr> draftId = draft_id,
                                  title_pr = nullish_or (title draft) (JStr ''Untitled''),
                                  status = Posting,
                                  tweetUrl = JStr [],
                                  timestamp = JStr [],
                                  errorMessage = JStr [] \<rparr>],
                           activeAgentId := Some TWITTER_AGENT_ID \<rparr>;
            call = (publishMessage draft, TWITTER_AGENT_ID);
            outcome = agent (calls w) call;
            s1 = (case reply outcome of
                    Rejected err \<Rightarrow> publishCaught (caught_message err) draft_id s0
                  | Resolved result \<Rightarrow>
                      (case publishResolved eng (finished_at outcome) draft draft_id result s0 of
                         Some s \<Rightarrow> s
                       | None \<Rightarrow> publishCaught (type_error_message eng) draft_id s0))
        in \<lparr> app = s1\<lparr> publishingIds := publishingIds s1 - {draft_id}, activeAgentId := None \<rparr>,
             calls = calls w @ [call] \<rparr>)"

subsection \<open>Publish all approved\<close>

text \<open>
  The views derived at render time. \<open>SAMPLE_MANAGER_RESPONSE\<close> is the page's constant
  sample, taken as a parameter \<open>sample\<close>.
\<close>

definition data_of :: "manager_response \<Rightarrow> app_state \<Rightarrow> manager_response option" where
  "data_of sample s = (if showSample s then Some sample else scanData s)"

definition drafts_of :: "manager_response \<Rightarrow> app_state \<Rightarrow> thread_draft list" where
  "drafts_of sample s = (case data_of sample s of Some d \<Rightarrow> thread_drafts d | None \<Rightarrow> [])"

definition approvedDrafts :: "manager_response \<Rightarrow> app_state \<Rightarrow> thread_draft list" where
  "approvedDrafts sample s =
     filter (\<lambda>d. nullish_or (td_id d) (JStr []) \<in> approvedDraftIds s) (drafts_of sample s)"

text \<open>
  The loop of \<open>publishAllApproved\<close>. The callback closes over \<open>approvedDrafts\<close> and
  \<open>publishHistory\<close> as they were at the render that created it: \<open>history\<close> stays the
  same through the loop, while each \<open>await publishThread(draft)\<close> works on the current
  world.
\<close>

fun publishEach ::
  "js_engine \<Rightarrow> agent \<Rightarrow> publish_record list \<Rightarrow> thread_draft list \<Rightarrow> world \<Rightarrow> world" where
  "publishEach eng agent history [] w = w"
| "publishEach eng agent history (draft # rest) w =
     (let existing =
            List.find (\<lambda>p. draftId p = nullish_or (td_id draft) (JStr []) \<and> status p = Success)
              history
      in if existing = None then
           publishEach eng agent history rest (publishThread eng agent draft w)
         else publishEach eng agent history rest w)"

definition publishAllApproved :: "manager_response \<Rightarrow> js_engine \<Rightarrow> agent \<Rightarrow> world \<Rightarrow> world" where
  "publishAllApproved sample eng agent w =
     publishEach eng agent (publishHistory (app w)) (approvedDrafts sample (app w)) w"

section \<open>Statements of the specification\<close>

text \<open>
  The specification's wording of a plausible schema match: the marker field is present,
  or one of the three major sub-collections is.
\<close>

definition plausible_match_stated :: "jsval \<Rightarrow> bool" where
  "plausible_match_stated m =
     (case m of
        JObj kvs \<Rightarrow>
          ''pipeline_status'' \<in> fst ` set kvs \<or> ''thread_drafts'' \<in> fst ` set kvs
          \<or> ''hn_results'' \<in> fst ` set kvs \<or> ''arxiv_results'' \<in> fst ` set kvs
      | _ \<Rightarrow> False)"

text \<open>
  What the interfaces declare. A value has the fields \<open>fs\<close> when it is an object whose
  property \<open>k\<close> has \<open>typeof\<close> \<open>t\<close> for every \<open>(k, t)\<close> of \<open>fs\<close>.
\<close>

definition has_fields :: "(string \<times> string) list \<Rightarrow> jsval \<Rightarrow> bool" where
  "has_fields fs v =
     (truthy v \<and> typeof v = ''object'' \<and> \<not> isArray v
      \<and> list_all (\<lambda>(k, t). typeof (get_prop v k) = t) fs)"

definition conforms_HNStory :: "jsval \<Rightarrow> bool" where
  "conforms_HNStory =
     has_fields
       [(''title'', ''string''), (''url'', ''string''), (''hn_score'', ''number''),
        (''comments_count'', ''number''), (''category'', ''string''),
        (''relevance_score'', ''number''), (''summary'', ''string''),
        (''source_type'', ''string'')]"

definition conforms_ArxivPaper :: "jsval \<Rightarrow> bool" where
  "conforms_ArxivPaper =
     has_fields
       [(''title'', ''string''), (''authors'', ''string''), (''abstract_summary'', ''string''),
        (''arxiv_link'', ''string''), (''category'', ''string''),
        (''relevance_score'', ''number''), (''novelty_score'', ''number''),
        (''applicability_score'', ''number'')]"

definition conforms_ThreadDraft :: "thread_draft \<Rightarrow> bool" where
  "conforms_ThreadDraft d =
     (typeof (td_id d) = ''string'' \<and> typeof (title d) = ''string''
      \<and> typeof (classification d) = ''string'' \<and> typeof (thread_content d) = ''string''
      \<and> typeof (hashtags d) = ''string'' \<and> typeof (hook d) = ''string''
      \<and> typeof (review_reason d) = ''string'' \<and> typeof (source_url d) = ''string'')"

definition conforms_ManagerResponse :: "manager_response \<Rightarrow> bool" where
  "conforms_ManagerResponse m =
     (typeof (pipeline_status m) = ''string''
      \<and> list_all conforms_HNStory (stories (hn_results m))
      \<and> typeof (hn_total_fetched (hn_results m)) = ''number''
      \<and> typeof (hn_total_filtered (hn_results m)) = ''number''
      \<and> list_all conforms_ArxivPaper (papers (arxiv_results m))
      \<and> typeof (arxiv_total_fetched (arxiv_results m)) = ''number''
      \<and> typeof (arxiv_total_filtered (arxiv_results m)) = ''number''
      \<and> list_all conforms_ThreadDraft (thread_drafts m)
      \<and> typeof (total_drafts m) = ''number'' \<and> typeof (auto_approved m) = ''number''
      \<and> typeof (flagged_for_review m) = ''number''
      \<and> typeof (scan_timestamp m) = ''string'')"

text \<open>
  The call-site order in the specification's words: of the outcomes of the five
  locations, in order, the first that is not null.
\<close>

definition first_non_null :: "jsval list \<Rightarrow> jsval" where
  "first_non_null vs = (case filter (\<lambda>v. v \<noteq> JNull) vs of [] \<Rightarrow> JNull | v # _ \<Rightarrow> v)"


text \<open>
  The worlds the page can be in: it starts in the initial state, and each handler run
  leads from one world to the next. Of all handlers only \<open>publishThread\<close> writes the
  publish history, so the last rule stands for every other one (approving, revoking,
  selecting, settings, the sample switch).
\<close>

definition initial_world :: world where
  "initial_world = \<lparr> app = initial_state, calls = [] \<rparr>"

inductive reachable :: "manager_response \<Rightarrow> js_engine \<Rightarrow> agent \<Rightarrow> world \<Rightarrow> bool"
  for sample :: manager_response and eng :: js_engine and agent :: agent
where
  reach_initial: "reachable sample eng agent initial_world"
| reach_scan: "reachable sample eng agent w \<Longrightarrow> reachable sample eng agent (runScan eng agent w)"
| reach_publish:
    "reachable sample eng agent w \<Longrightarrow> reachable sample eng agent (publishThread eng agent draft w)"
| reach_publish_all:
    "reachable sample eng agent w \<Longrightarrow>
     reachable sample eng agent (publishAllApproved sample eng agent w)"
| reach_other:
    "reachable sample eng agent w \<Longrightarrow> publishHistory (app w') = publishHistory (app w) \<Longrightarrow>
     reachable sample eng agent w'"

section \<open>Sample runtime and agent\<close>

text \<open>
  A runtime for the examples. Its parser knows one JSON text, \<open>sample_text\<close>, which is
  \<open>{"post_status":"success"}\<close>, and rejects every other string; the examples use
  no other string that is JSON. An agent that gives the same outcome to every call.
\<close>

definition sample_text :: string where
  "sample_text = ''{'' @ dquote @ ''post_status'' @ dquote @ '':'' @ dquote @ ''success'' @ dquote @ ''}''"

definition sample_parse :: json_parse where
  "sample_parse s =
     (if s = sample_text then Some (JObj [(''post_status'', JStr ''success'')]) else None)"

definition sample_engine :: js_engine where
  "sample_engine =
     \<lparr> JSON_parse = sample_parse, JSON_stringify = (\<lambda>v. None),
       type_error_message = ''TypeError'' \<rparr>"

definition agent_replying :: "agent_reply \<Rightarrow> agent" where
  "agent_replying r history call = \<lparr> reply = r, elapsed_ms = 4000, finished_at = ''2025-02-21T14:30:00Z'' \<rparr>"

text \<open>
  Sample data: a draft with a given id, a stand-in for \<open>SAMPLE_MANAGER_RESPONSE\<close> with
  three such drafts, and a world that shows it, with the three drafts approved and the
  first one already published.
\<close>

definition sample_draft :: "jsval \<Rightarrow> thread_draft" where
  "sample_draft i =
     \<lparr> td_id = i, title = JStr ''X'', classification = JStr ''TECH DEEP DIVE'',
       thread_content = JStr ''Hello'', hashtags = JStr ''#ai'', hook = JStr [],
       requires_review = False, review_reason = JStr [], source_url = JStr [],
       relevance_score = 80 \<rparr>"


definition sample_world :: world where
  "sample_world =
     \<lparr> app = initial_state
         \<lparr> showSample := True,
           approvedDraftIds := {JStr ''draft-001'', JStr ''draft-002'', JStr ''draft-003''},
           publishHistory :=
             [\<lparr> draftId = JStr ''draft-001'', title_pr = JStr ''X'', status = Success,
                 tweetUrl = JStr [], timestamp = JStr ''2025-02-21T14:30:00Z'',
                 errorMessage = JStr [] \<rparr>] \<rparr>,
       calls = [] \<rparr>"

section \<open>Auxiliary notions for the proofs\<close>



section \<open>Properties of the extractor\<close>

declare deepSearch.simps [simp del]

subsection \<open>Decimal numerals are made of digits\<close>

lemma digit_char_in: "digit_char n \<in> set ''0123456789''"
  unfolding digit_char_def by (rule nth_mem) simp

lemma string_of_nat_digits: "set (string_of_nat n) \<subseteq> set ''0123456789''"
proof (induction n rule: string_of_nat.induct)
  case (1 n)
  show ?case
  proof (cases "n < 10")
    case True
    then show ?thesis using digit_char_in[of n] by (subst string_of_nat.simps) simp
  next
    case False
    then show ?thesis using 1 digit_char_in[of n] by (subst string_of_nat.simps) simp
  qed
qed

lemma index_of_key_None:
  assumes "k \<noteq> []" and "hd k \<notin> set ''0123456789''"
  shows "index_of_key n k = None"
proof -
  have "string_of_nat i \<noteq> k" for i
  proof
    assume "string_of_nat i = k"
    then have "set k \<subseteq> set ''0123456789''" using string_of_nat_digits[of i] by simp
    moreover have "hd k \<in> set k" using assms(1) by simp
    ultimately show False using assms(2) by blast
  qed
  then show ?thesis by (simp add: index_of_key_def find_None_iff)
qed

lemma wrapper_key_not_index: "key \<in> set wrapperKeys \<Longrightarrow> index_of_key n key = None"
  by (auto simp: wrapperKeys_def intro!: index_of_key_None)

lemma wrapper_key_not_length: "key \<in> set wrapperKeys \<Longrightarrow> key \<noteq> ''length''"
  by (auto simp: wrapperKeys_def)

lemma opt_member_array_wrapper:
  "key \<in> set wrapperKeys \<Longrightarrow> opt_member (JArr xs) key = JUndefined"
  by (simp add: opt_member_def wrapper_key_not_index wrapper_key_not_length)

subsection \<open>The schema test\<close>

lemma isMatch_total: "\<exists>b. isMatch vk obj = Some b"
  by (cases obj) (auto simp: isMatch_def)

lemma isMatch_True_iff:
  "isMatch vk obj = Some True \<longleftrightarrow> (\<exists>kvs. obj = JObj kvs \<and> vk \<in> fst ` set kvs)"
  by (cases obj) (auto simp: isMatch_def)

lemma isMatch_cases: "isMatch vk obj = Some True \<or> isMatch vk obj = Some False"
  using isMatch_total[of vk obj] by auto

lemma isMatch_truthy: "isMatch vk obj = Some True \<Longrightarrow> truthy obj"
  by (auto simp: isMatch_True_iff)

lemma truthy_not_nullish: "truthy v \<Longrightarrow> \<not> nullish v"
  by (cases v) simp_all

subsection \<open>The search returns null or a match, and does not throw\<close>

lemma search_shape:
  "\<exists>r. deepSearch parse vk obj depth = Some r \<and> (r = JNull \<or> isMatch vk r = Some True)"
  "\<not> nullish obj \<Longrightarrow>
     \<exists>r. probeWrapperKeys parse vk obj depth keys = Some r
         \<and> (r = JNull \<or> isMatch vk r = Some True)"
proof (induction parse vk obj depth and parse vk obj depth keys
    rule: deepSearch_probeWrapperKeys.induct)
  case (1 parse vk obj depth)
  show ?case
    using 1 isMatch_cases[of vk obj] isMatch_cases[of vk "tryParse parse obj"]
      truthy_not_nullish[of obj]
    by (subst deepSearch.simps) (auto simp: Let_def)
next
  case (2 parse vk obj depth)
  show ?case by simp
next
  case (3 parse vk obj depth key keys)
  show ?case
    using 3 by (auto simp: member_def)
qed

lemma probe_array:
  "set keys \<subseteq> set wrapperKeys \<Longrightarrow> probeWrapperKeys parse vk (JArr xs) depth keys = Some JNull"
  by (induction keys) (auto simp: member_def wrapper_key_not_index wrapper_key_not_length)

lemma deepSearch_no_match:
  "deepSearch parse vk (JArr xs) depth = Some JNull"
  "deepSearch parse vk (JNum n) depth = Some JNull"
  "deepSearch parse vk (JBool b) depth = Some JNull"
  "deepSearch parse vk JNull depth = Some JNull"
  "deepSearch parse vk JUndefined depth = Some JNull"
  by (subst deepSearch.simps, simp add: isMatch_def probe_array)+

lemma deepSearch_too_deep: "depth > 6 \<Longrightarrow> deepSearch parse vk obj depth = Some JNull"
  by (simp add: deepSearch.simps)

lemma extract_shape:
  "\<exists>r. extractAgentData parse result vk = Some r \<and> (r = JNull \<or> isMatch vk r = Some True)"
proof -
  let ?direct = "opt_member (opt_member result ''response'') ''result''"
  obtain r2 where r2: "deepSearch parse vk ?direct 0 = Some r2"
      "r2 = JNull \<or> isMatch vk r2 = Some True"
    using search_shape(1) by blast
  obtain r3 where r3: "deepSearch parse vk (opt_member result ''response'') 0 = Some r3"
      "r3 = JNull \<or> isMatch vk r3 = Some True"
    using search_shape(1) by blast
  obtain r4 where r4: "deepSearch parse vk (get_prop result ''raw_response'') 0 = Some r4"
      "r4 = JNull \<or> isMatch vk r4 = Some True"
    using search_shape(1) by blast
  obtain r5 where r5: "deepSearch parse vk result 0 = Some r5"
      "r5 = JNull \<or> isMatch vk r5 = Some True"
    using search_shape(1) by blast
  show ?thesis
    using r2 r3 r4 r5 isMatch_cases[of vk ?direct] truthy_not_nullish[of result]
    by (auto simp: extractAgentData_def Let_def member_def)
qed

lemma extract_no_match:
  "extractAgentData parse (JArr xs) vk = Some JNull"
  "extractAgentData parse (JNum n) vk = Some JNull"
  "extractAgentData parse (JBool b) vk = Some JNull"
  "extractAgentData parse JNull vk = Some JNull"
proof -
  have w: "''response'' \<in> set wrapperKeys" "''raw_response'' \<in> set wrapperKeys"
    by (simp_all add: wrapperKeys_def)
  have u: "opt_member JUndefined ''result'' = JUndefined" by (simp add: opt_member_def)
  show "extractAgentData parse (JArr xs) vk = Some JNull"
    by (simp add: extractAgentData_def opt_member_array_wrapper[OF w(1)]
        opt_member_array_wrapper[OF w(2)] u deepSearch_no_match isMatch_def)
  show "extractAgentData parse (JNum n) vk = Some JNull"
    by (simp add: extractAgentData_def opt_member_def deepSearch_no_match isMatch_def)
  show "extractAgentData parse (JBool b) vk = Some JNull"
    by (simp add: extractAgentData_def opt_member_def deepSearch_no_match isMatch_def)
  show "extractAgentData parse JNull vk = Some JNull"
    by (simp add: extractAgentData_def)
qed

text \<open>
  C2. For every value and every marker key, \<open>extractAgentData\<close> terminates (it is a
  total function, and \<open>deepSearch\<close> answers null at once beyond depth 6), does not throw
  (its result is never \<open>None\<close>), and returns null or an object, not an array, that has
  the marker key among its properties; the same holds of \<open>deepSearch\<close> at every depth.
  Arrays, numbers, booleans and null yield null, as input of \<open>extractAgentData\<close> and as
  value met by \<open>deepSearch\<close>.
\<close>

theorem extractAgentData_null_or_marked:
  "(\<exists>r. extractAgentData parse result validatorKey = Some r
        \<and> (r = JNull \<or> (\<exists>kvs. r = JObj kvs \<and> validatorKey \<in> fst ` set kvs)))
   \<and> (\<exists>r. deepSearch parse validatorKey obj depth = Some r
        \<and> (r = JNull \<or> (\<exists>kvs. r = JObj kvs \<and> validatorKey \<in> fst ` set kvs)))
   \<and> (depth > 6 \<longrightarrow> deepSearch parse validatorKey obj depth = Some JNull)
   \<and> extractAgentData parse (JArr xs) validatorKey = Some JNull
   \<and> extractAgentData parse (JNum n) validatorKey = Some JNull
   \<and> extractAgentData parse (JBool b) validatorKey = Some JNull
   \<and> extractAgentData parse JNull validatorKey = Some JNull
   \<and> deepSearch parse validatorKey (JArr xs) depth = Some JNull
   \<and> deepSearch parse validatorKey (JNum n) depth = Some JNull
   \<and> deepSearch parse validatorKey (JBool b) depth = Some JNull
   \<and> deepSearch parse validatorKey JNull depth = Some JNull"
proof -
  have "\<exists>r. extractAgentData parse result validatorKey = Some r
        \<and> (r = JNull \<or> (\<exists>kvs. r = JObj kvs \<and> validatorKey \<in> fst ` set kvs))"
    using extract_shape[of parse result validatorKey] by (simp add: isMatch_True_iff)
  moreover have "\<exists>r. deepSearch parse validatorKey obj depth = Some r
        \<and> (r = JNull \<or> (\<exists>kvs. r = JObj kvs \<and> validatorKey \<in> fst ` set kvs))"
    using search_shape(1)[of parse validatorKey obj depth] by (simp add: isMatch_True_iff)
  ultimately show ?thesis
    by (simp add: deepSearch_too_deep extract_no_match deepSearch_no_match)
qed

theorem extractAgentData_null_or_marked_witness:
  "(\<exists>r. extractAgentData sample_parse (JObj [(''response'', JStr sample_text)]) ''post_status''
          = Some r
        \<and> (r = JNull \<or> (\<exists>kvs. r = JObj kvs \<and> ''post_status'' \<in> fst ` set kvs)))
   \<and> (7::nat) > 6
   \<and> deepSearch sample_parse ''post_status'' (JStr sample_text) 7 = Some JNull
   \<and> extractAgentData sample_parse (JArr [JObj [(''post_status'', JStr ''success'')]])
        ''post_status'' = Some JNull"
  using extractAgentData_null_or_marked
    [of sample_parse "JObj [(''response'', JStr sample_text)]" "''post_status''"
        "JStr sample_text" 7 "[JObj [(''post_status'', JStr ''success'')]]"]
  by simp

subsection \<open>Order of the search\<close>

lemma search_result_truthy:
  "deepSearch parse vk obj depth = Some c \<Longrightarrow> c \<noteq> JNull \<Longrightarrow> truthy c"
  using search_shape(1)[of parse vk obj depth] isMatch_truthy by auto

lemma search_result_falsy:
  "deepSearch parse vk obj depth = Some c \<Longrightarrow> \<not> truthy c \<Longrightarrow> c = JNull"
  using search_result_truthy by blast

lemma deepSearch_falsy: "\<not> truthy obj \<Longrightarrow> deepSearch parse vk obj depth = Some JNull"
  by (simp add: deepSearch.simps)

lemma deepSearch_nullish: "nullish obj \<Longrightarrow> deepSearch parse vk obj depth = Some JNull"
  using truthy_not_nullish deepSearch_falsy by blast

lemma probe_first:
  assumes "\<not> nullish obj"
    and "\<forall>k \<in> set before. nullish (get_prop obj k)
           \<or> deepSearch parse vk (get_prop obj k) (depth + 1) = Some JNull"
    and "deepSearch parse vk (get_prop obj key) (depth + 1) = Some c" and "c \<noteq> JNull"
  shows "probeWrapperKeys parse vk obj depth (before @ key # rest) = Some c"
  using assms(2)
proof (induction before)
  case Nil
  have "\<not> nullish (get_prop obj key)"
    using assms(3,4) deepSearch_nullish[of "get_prop obj key" parse vk "depth + 1"] by auto
  then show ?case
    using assms(1,3,4) search_result_truthy[OF assms(3,4)] by (simp add: member_def)
next
  case (Cons k ks)
  then show ?case using assms(1) by (auto simp: member_def)
qed

lemma deepSearch_object:
  assumes "depth \<le> 6" and "vk \<notin> fst ` set kvs"
  shows "deepSearch parse vk (JObj kvs) depth = probeWrapperKeys parse vk (JObj kvs) depth wrapperKeys"
  using assms by (subst deepSearch.simps) (simp add: isMatch_def)

lemma falsy_cases:
  "\<not> truthy v \<Longrightarrow> v = JUndefined \<or> v = JNull \<or> v = JBool False \<or> v = JNum 0 \<or> v = JStr []"
  by (cases v) auto

lemma opt_member_falsy:
  assumes "\<not> truthy v" and "k \<noteq> ''length''"
  shows "opt_member v k = JUndefined"
  using falsy_cases[OF assms(1)] assms(2) by (auto simp: opt_member_def index_of_key_def)

lemma extract_first_non_null:
  "\<exists>p2 p3 p4 p5.
      deepSearch parse vk (opt_member (opt_member result ''response'') ''result'') 0 = Some p2
    \<and> deepSearch parse vk (opt_member result ''response'') 0 = Some p3
    \<and> deepSearch parse vk (opt_member result ''raw_response'') 0 = Some p4
    \<and> deepSearch parse vk result 0 = Some p5
    \<and> extractAgentData parse result vk =
        Some (first_non_null
          [if isMatch vk (opt_member (opt_member result ''response'') ''result'') = Some True
           then opt_member (opt_member result ''response'') ''result'' else JNull,
           p2, p3, p4, p5])"
proof -
  let ?direct = "opt_member (opt_member result ''response'') ''result''"
  obtain p2 where p2: "deepSearch parse vk ?direct 0 = Some p2"
    using search_shape(1) by blast
  obtain p3 where p3: "deepSearch parse vk (opt_member result ''response'') 0 = Some p3"
    using search_shape(1) by blast
  obtain p4 where p4: "deepSearch parse vk (opt_member result ''raw_response'') 0 = Some p4"
    using search_shape(1) by blast
  obtain p5 where p5: "deepSearch parse vk result 0 = Some p5"
    using search_shape(1) by blast
  have t: "truthy p2 = (p2 \<noteq> JNull)" "truthy p3 = (p3 \<noteq> JNull)"
      "truthy p4 = (p4 \<noteq> JNull)" "truthy p5 = (p5 \<noteq> JNull)"
    using search_result_truthy[OF p2] search_result_truthy[OF p3] search_result_truthy[OF p4]
      search_result_truthy[OF p5] by auto
  have d: "isMatch vk ?direct = Some True \<Longrightarrow> ?direct \<noteq> JNull"
    using isMatch_truthy by fastforce
  have "extractAgentData parse result vk =
        Some (first_non_null [if isMatch vk ?direct = Some True then ?direct else JNull, p2, p3, p4, p5])"
  proof (cases "truthy result")
    case True
    then have m: "member result ''raw_response'' = Some (opt_member result ''raw_response'')"
      using truthy_not_nullish by (simp add: member_def opt_member_def)
    have raw: "\<not> truthy (opt_member result ''raw_response'') \<Longrightarrow> p4 = JNull"
      using p4 deepSearch_falsy by simp
    show ?thesis
      using True p2 p3 p4 p5 raw d isMatch_cases[of vk ?direct]
      by (auto simp: extractAgentData_def first_non_null_def m t)
  next
    case False
    have a: "opt_member result ''response'' = JUndefined" "opt_member result ''raw_response'' = JUndefined"
      using opt_member_falsy[OF False] by simp_all
    have u: "opt_member JUndefined ''result'' = JUndefined" by (simp add: opt_member_def)
    have z: "p2 = JNull" "p3 = JNull" "p4 = JNull" "p5 = JNull"
      using p2 p3 p4 p5 False by (simp_all add: a u deepSearch_no_match deepSearch_falsy)
    have "isMatch vk ?direct = Some False" by (simp add: a u isMatch_def)
    then show ?thesis
      using False by (simp add: extractAgentData_def first_non_null_def z)
  qed
  then show ?thesis using p2 p3 p4 p5 by blast
qed

lemma deepSearch_of_match:
  assumes "isMatch vk M = Some True"
  shows "deepSearch parse vk M 0 = Some M"
  using assms isMatch_truthy[OF assms]
  by (subst deepSearch.simps) (cases M, simp_all add: isMatch_def)

text \<open>
  C7. The extraction follows a fixed order. In \<open>deepSearch\<close>, on an object that is not
  itself a match, when the wrapper keys \<open>key1\<close> and \<open>key2\<close> both lead to a candidate,
  \<open>key1\<close> comes before \<open>key2\<close> in the probe order, and no key before \<open>key1\<close> leads
  to one, the candidate under \<open>key1\<close> is returned. In \<open>extractAgentData\<close>, the result
  is the first outcome that is not null among: \<open>result.response.result\<close> itself when it
  is a match, the deep search within it, the deep search of \<open>result.response\<close>, that of
  \<open>result.raw_response\<close>, and that of the whole \<open>result\<close>.
\<close>

theorem extraction_order:
  "(depth \<le> 6 \<and> validatorKey \<notin> fst ` set kvs
      \<and> wrapperKeys = before @ key1 # between @ key2 # after
      \<and> (\<forall>k \<in> set before. nullish (get_prop (JObj kvs) k)
             \<or> deepSearch parse validatorKey (get_prop (JObj kvs) k) (depth + 1) = Some JNull)
      \<and> deepSearch parse validatorKey (get_prop (JObj kvs) key1) (depth + 1) = Some c1
      \<and> c1 \<noteq> JNull
      \<and> deepSearch parse validatorKey (get_prop (JObj kvs) key2) (depth + 1) = Some c2
      \<and> c2 \<noteq> JNull
    \<longrightarrow> deepSearch parse validatorKey (JObj kvs) depth = Some c1)
   \<and> (\<exists>p2 p3 p4 p5.
          deepSearch parse validatorKey (opt_member (opt_member result ''response'') ''result'') 0
            = Some p2
        \<and> deepSearch parse validatorKey (opt_member result ''response'') 0 = Some p3
        \<and> deepSearch parse validatorKey (opt_member result ''raw_response'') 0 = Some p4
        \<and> deepSearch parse validatorKey result 0 = Some p5
        \<and> extractAgentData parse result validatorKey =
            Some (first_non_null
              [if isMatch validatorKey (opt_member (opt_member result ''response'') ''result'')
                    = Some True
               then opt_member (opt_member result ''response'') ''result'' else JNull,
               p2, p3, p4, p5]))"
proof (intro conjI impI)
  assume h: "depth \<le> 6 \<and> validatorKey \<notin> fst ` set kvs
      \<and> wrapperKeys = before @ key1 # between @ key2 # after
      \<and> (\<forall>k \<in> set before. nullish (get_prop (JObj kvs) k)
             \<or> deepSearch parse validatorKey (get_prop (JObj kvs) k) (depth + 1) = Some JNull)
      \<and> deepSearch parse validatorKey (get_prop (JObj kvs) key1) (depth + 1) = Some c1
      \<and> c1 \<noteq> JNull
      \<and> deepSearch parse validatorKey (get_prop (JObj kvs) key2) (depth + 1) = Some c2
      \<and> c2 \<noteq> JNull"
  then have "probeWrapperKeys parse validatorKey (JObj kvs) depth
               (before @ key1 # between @ key2 # after) = Some c1"
    by (intro probe_first) simp_all
  then show "deepSearch parse validatorKey (JObj kvs) depth = Some c1"
    using h deepSearch_object[of depth validatorKey kvs parse] by simp
next
  show "\<exists>p2 p3 p4 p5.
          deepSearch parse validatorKey (opt_member (opt_member result ''response'') ''result'') 0
            = Some p2
        \<and> deepSearch parse validatorKey (opt_member result ''response'') 0 = Some p3
        \<and> deepSearch parse validatorKey (opt_member result ''raw_response'') 0 = Some p4
        \<and> deepSearch parse validatorKey result 0 = Some p5
        \<and> extractAgentData parse result validatorKey =
            Some (first_non_null
              [if isMatch validatorKey (opt_member (opt_member result ''response'') ''result'')
                    = Some True
               then opt_member (opt_member result ''response'') ''result'' else JNull,
               p2, p3, p4, p5])"
    by (rule extract_first_non_null)
qed

theorem extraction_order_witness:
  "wrapperKeys = [''result'', ''response''] @ ''data'' # [''output'', ''content'', ''message'']
                 @ ''text'' # [''raw_response'']
   \<and> deepSearch sample_parse ''post_status''
        (get_prop (JObj [(''text'', JObj [(''post_status'', JStr ''late'')]),
                         (''data'', JObj [(''post_status'', JStr ''early'')])]) ''text'') 1
       = Some (JObj [(''post_status'', JStr ''late'')])
   \<and> deepSearch sample_parse ''post_status''
        (JObj [(''text'', JObj [(''post_status'', JStr ''late'')]),
               (''data'', JObj [(''post_status'', JStr ''early'')])]) 0
       = Some (JObj [(''post_status'', JStr ''early'')])"
proof -
  let ?kvs = "[(''text'', JObj [(''post_status'', JStr ''late'')]),
               (''data'', JObj [(''post_status'', JStr ''early'')])]"
  have h: "(0::nat) \<le> 6 \<and> ''post_status'' \<notin> fst ` set ?kvs
      \<and> wrapperKeys = [''result'', ''response''] @ ''data'' # [''output'', ''content'', ''message'']
                       @ ''text'' # [''raw_response'']
      \<and> (\<forall>k \<in> set [''result'', ''response'']. nullish (get_prop (JObj ?kvs) k)
             \<or> deepSearch sample_parse ''post_status'' (get_prop (JObj ?kvs) k) (0 + 1) = Some JNull)
      \<and> deepSearch sample_parse ''post_status'' (get_prop (JObj ?kvs) ''data'') (0 + 1)
          = Some (JObj [(''post_status'', JStr ''early'')])
      \<and> JObj [(''post_status'', JStr ''early'')] \<noteq> JNull
      \<and> deepSearch sample_parse ''post_status'' (get_prop (JObj ?kvs) ''text'') (0 + 1)
          = Some (JObj [(''post_status'', JStr ''late'')])
      \<and> JObj [(''post_status'', JStr ''late'')] \<noteq> JNull"
    by code_simp
  have "deepSearch sample_parse ''post_status'' (JObj ?kvs) 0
          = Some (JObj [(''post_status'', JStr ''early'')])"
    using extraction_order
      [where depth = 0 and validatorKey = "''post_status''" and kvs = ?kvs
         and before = "[''result'', ''response'']" and ?key1.0 = "''data''"
         and between = "[''output'', ''content'', ''message'']" and ?key2.0 = "''text''"
         and after = "[''raw_response'']" and parse = sample_parse
         and ?c1.0 = "JObj [(''post_status'', JStr ''early'')]"
         and ?c2.0 = "JObj [(''post_status'', JStr ''late'')]"]
      h
    by blast
  then show ?thesis using h by simp
qed

subsection \<open>Extraction from an extracted object\<close>

text \<open>
  C8 as stated fails: an extracted object can itself hold a match at
  \<open>response.result\<close>, and extracting from it returns that inner match. Here the input
  wraps the object \<open>{pipeline_status: "outer", response: {result: {pipeline_status:
  "inner"}}}\<close> under \<open>response.result\<close>.
\<close>

theorem extract_idempotent_counterexample:
  "extractAgentData sample_parse
     (JObj [(''response'', JObj [(''result'',
        JObj [(''pipeline_status'', JStr ''outer''),
              (''response'', JObj [(''result'', JObj [(''pipeline_status'', JStr ''inner'')])])])])])
     ''pipeline_status''
   = Some (JObj [(''pipeline_status'', JStr ''outer''),
                 (''response'', JObj [(''result'', JObj [(''pipeline_status'', JStr ''inner'')])])])
   \<and> extractAgentData sample_parse
     (JObj [(''pipeline_status'', JStr ''outer''),
            (''response'', JObj [(''result'', JObj [(''pipeline_status'', JStr ''inner'')])])])
     ''pipeline_status''
   = Some (JObj [(''pipeline_status'', JStr ''inner'')])
   \<and> JObj [(''pipeline_status'', JStr ''inner'')]
     \<noteq> JObj [(''pipeline_status'', JStr ''outer''),
             (''response'', JObj [(''result'', JObj [(''pipeline_status'', JStr ''inner'')])])]"
  by code_simp

text \<open>
  C8, amended. When \<open>extractAgentData\<close> returns an object \<open>M\<close>, extracting from
  \<open>M\<close> returns \<open>M\<close> provided the locations tried before the whole object hold nothing
  in \<open>M\<close>: \<open>M.response.result\<close> is not a match, and the deep searches of
  \<open>M.response.result\<close>, of \<open>M.response\<close> and of \<open>M.raw_response\<close> find nothing. This
  is so whenever \<open>M\<close> has no truthy \<open>response\<close> and no truthy \<open>raw_response\<close>.
\<close>

theorem extract_idempotent_on_plain_match:
  assumes "extractAgentData parse input validatorKey = Some M" and "M \<noteq> JNull"
  shows "(isMatch validatorKey (opt_member (opt_member M ''response'') ''result'') = Some False
          \<and> deepSearch parse validatorKey (opt_member (opt_member M ''response'') ''result'') 0
              = Some JNull
          \<and> deepSearch parse validatorKey (opt_member M ''response'') 0 = Some JNull
          \<and> deepSearch parse validatorKey (opt_member M ''raw_response'') 0 = Some JNull
          \<longrightarrow> extractAgentData parse M validatorKey = Some M)
       \<and> (\<not> truthy (opt_member M ''response'') \<and> \<not> truthy (opt_member M ''raw_response'')
          \<longrightarrow> extractAgentData parse M validatorKey = Some M)"
proof -
  have match: "isMatch validatorKey M = Some True"
    using extract_shape[of parse input validatorKey] assms by auto
  then have t: "truthy M" by (rule isMatch_truthy)
  then have m: "member M ''raw_response'' = Some (opt_member M ''raw_response'')"
    using truthy_not_nullish by (simp add: member_def opt_member_def)
  have general: "extractAgentData parse M validatorKey = Some M"
    if "isMatch validatorKey (opt_member (opt_member M ''response'') ''result'') = Some False"
      and "deepSearch parse validatorKey (opt_member (opt_member M ''response'') ''result'') 0
              = Some JNull"
      and "deepSearch parse validatorKey (opt_member M ''response'') 0 = Some JNull"
      and "deepSearch parse validatorKey (opt_member M ''raw_response'') 0 = Some JNull"
    using that t deepSearch_of_match[OF match, of parse] by (simp add: extractAgentData_def m)
  have plain: "extractAgentData parse M validatorKey = Some M"
    if f: "\<not> truthy (opt_member M ''response'')" "\<not> truthy (opt_member M ''raw_response'')"
  proof -
    have d: "opt_member (opt_member M ''response'') ''result'' = JUndefined"
      using opt_member_falsy[OF f(1), of "''result''"] by simp
    show ?thesis
      by (rule general) (simp_all add: d isMatch_def deepSearch_no_match deepSearch_falsy f)
  qed
  show ?thesis using general plain by blast
qed

theorem extract_idempotent_on_plain_match_witness:
  "extractAgentData sample_parse
     (JObj [(''response'', JObj [(''result'', JObj [(''pipeline_status'', JStr ''completed'')])])])
     ''pipeline_status''
   = Some (JObj [(''pipeline_status'', JStr ''completed'')])
   \<and> extractAgentData sample_parse (JObj [(''pipeline_status'', JStr ''completed'')])
       ''pipeline_status''
   = Some (JObj [(''pipeline_status'', JStr ''completed'')])"
proof -
  let ?M = "JObj [(''pipeline_status'', JStr ''completed'')]"
  let ?input = "JObj [(''response'', JObj [(''result'', ?M)])]"
  have a: "extractAgentData sample_parse ?input ''pipeline_status'' = Some ?M"
    by code_simp
  have b: "?M \<noteq> JNull" by simp
  have c: "isMatch ''pipeline_status'' (opt_member (opt_member ?M ''response'') ''result'')
             = Some False
          \<and> deepSearch sample_parse ''pipeline_status''
              (opt_member (opt_member ?M ''response'') ''result'') 0 = Some JNull
          \<and> deepSearch sample_parse ''pipeline_status'' (opt_member ?M ''response'') 0 = Some JNull
          \<and> deepSearch sample_parse ''pipeline_status'' (opt_member ?M ''raw_response'') 0
              = Some JNull"
    by code_simp
  have "extractAgentData sample_parse ?M ''pipeline_status'' = Some ?M"
    using extract_idempotent_on_plain_match[OF a b] c by blast
  then show ?thesis using a by simp
qed

section \<open>Properties of the scan handler\<close>

declare string_of_nat.simps [simp del]

subsection \<open>Sanitization\<close>

lemma sanitize_Some:
  assumes "\<not> nullish c"
  shows "sanitize now c =
     Some \<lparr> pipeline_status = nullish_or (get_prop c ''pipeline_status'') (JStr ''completed''),
           hn_results =
             \<lparr> stories = (case opt_member (get_prop c ''hn_results'') ''stories'' of JArr xs \<Rightarrow> xs | _ \<Rightarrow> []),
               hn_total_fetched = nullish_or (opt_member (get_prop c ''hn_results'') ''total_fetched'') (JNum 0),
               hn_total_filtered = nullish_or (opt_member (get_prop c ''hn_results'') ''total_filtered'') (JNum 0) \<rparr>,
           arxiv_results =
             \<lparr> papers = (case opt_member (get_prop c ''arxiv_results'') ''papers'' of JArr xs \<Rightarrow> xs | _ \<Rightarrow> []),
               arxiv_total_fetched = nullish_or (opt_member (get_prop c ''arxiv_results'') ''total_fetched'') (JNum 0),
               arxiv_total_filtered = nullish_or (opt_member (get_prop c ''arxiv_results'') ''total_filtered'') (JNum 0) \<rparr>,
           thread_drafts =
             (case get_prop c ''thread_drafts'' of
                JArr ds \<Rightarrow> map (\<lambda>(idx, d). sanitizeDraft d idx) (enumerate 0 ds)
              | _ \<Rightarrow> []),
           total_drafts =
             nullish_or (get_prop c ''total_drafts'')
               (JNum (case get_prop c ''thread_drafts'' of JArr ds \<Rightarrow> int (length ds) | _ \<Rightarrow> 0)),
           auto_approved = nullish_or (get_prop c ''auto_approved'') (JNum 0),
           flagged_for_review = nullish_or (get_prop c ''flagged_for_review'') (JNum 0),
           scan_timestamp = nullish_or (get_prop c ''scan_timestamp'') (JStr now) \<rparr>"
  using assms by (simp add: sanitize_def member_def)

lemma sanitize_drafts:
  assumes "\<not> nullish c" and "sanitize now c = Some m"
  shows "get_prop c ''thread_drafts'' = JArr ds \<Longrightarrow>
           length (thread_drafts m) = length ds
           \<and> (\<forall>i < length ds. thread_drafts m ! i = sanitizeDraft (ds ! i) i)"
    and "\<not> isArray (get_prop c ''thread_drafts'') \<Longrightarrow> thread_drafts m = []"
proof -
  have m: "m = the (sanitize now c)" using assms(2) by simp
  show "get_prop c ''thread_drafts'' = JArr ds \<Longrightarrow>
           length (thread_drafts m) = length ds
           \<and> (\<forall>i < length ds. thread_drafts m ! i = sanitizeDraft (ds ! i) i)"
    unfolding m sanitize_Some[OF assms(1)] by (simp add: nth_enumerate_eq)
  show "\<not> isArray (get_prop c ''thread_drafts'') \<Longrightarrow> thread_drafts m = []"
    unfolding m sanitize_Some[OF assms(1)] by (cases "get_prop c ''thread_drafts''") simp_all
qed

text \<open>
  C3 as stated fails: the sanitized value is not fully typed as \<open>ManagerResponse\<close>
  declares it. Only a missing or null \<open>id\<close> is replaced, so the candidate
  \<open>{pipeline_status: "completed", thread_drafts: [{id: 7}]}\<close> yields a draft whose
  \<open>id\<close> is the number 7, where \<open>ThreadDraft\<close> declares a string.
\<close>

theorem sanitize_fully_typed_counterexample:
  "map_option (map td_id \<circ> thread_drafts)
     (sanitize ''2025-02-21T14:30:00Z''
        (JObj [(''pipeline_status'', JStr ''completed''),
               (''thread_drafts'', JArr [JObj [(''id'', JNum 7)]])]))
   = Some [JNum 7]
   \<and> map_option conforms_ManagerResponse
     (sanitize ''2025-02-21T14:30:00Z''
        (JObj [(''pipeline_status'', JStr ''completed''),
               (''thread_drafts'', JArr [JObj [(''id'', JNum 7)]])]))
   = Some False"
  by code_simp

text \<open>
  C3, amended. Sanitization of a candidate that is not null or undefined does not throw.
  In its result \<open>stories\<close>, \<open>papers\<close> and \<open>thread_drafts\<close> are the candidate's
  arrays, and empty where the candidate has no array there. The draft list is mapped
  element by element, each draft from the element at its index alone: a missing or null
  \<open>id\<close> becomes \<open>draft-<index+1>\<close> and any other \<open>id\<close> is kept whatever its type;
  \<open>relevance_score\<close> is the element's when that is a number and 50 otherwise, so also
  for a string; \<open>requires_review\<close> is true only when the element's is the boolean
  true. Every other field, of a draft and of the response, is the candidate's value
  unless that is missing or null, and its default then. For the envelope
  \<open>{response: {result: {pipeline_status: "completed", thread_drafts: [{title: "X"}]}}}\<close>
  extraction returns the inner object, and sanitization yields exactly one draft, with
  id \<open>draft-1\<close>, score 50 and no review required.
\<close>

theorem sanitize_total_and_defaults:
  "(\<not> nullish candidate \<longrightarrow>
      (\<exists>m. sanitize now candidate = Some m
         \<and> stories (hn_results m) =
             (case opt_member (get_prop candidate ''hn_results'') ''stories'' of
                JArr xs \<Rightarrow> xs | _ \<Rightarrow> [])
         \<and> papers (arxiv_results m) =
             (case opt_member (get_prop candidate ''arxiv_results'') ''papers'' of
                JArr xs \<Rightarrow> xs | _ \<Rightarrow> [])
         \<and> (\<not> isArray (get_prop candidate ''thread_drafts'') \<longrightarrow> thread_drafts m = [])
         \<and> (\<forall>ds. get_prop candidate ''thread_drafts'' = JArr ds \<longrightarrow>
               length (thread_drafts m) = length ds
               \<and> (\<forall>i < length ds.
                     td_id (thread_drafts m ! i) =
                       (if nullish (opt_member (ds ! i) ''id'')
                        then JStr (''draft-'' @ string_of_nat (i + 1))
                        else opt_member (ds ! i) ''id'')
                   \<and> relevance_score (thread_drafts m ! i) =
                       (case opt_member (ds ! i) ''relevance_score'' of
                          JNum n \<Rightarrow> n | _ \<Rightarrow> 50)
                   \<and> (typeof (opt_member (ds ! i) ''relevance_score'') = ''string''
                        \<longrightarrow> relevance_score (thread_drafts m ! i) = 50)
                   \<and> requires_review (thread_drafts m ! i) =
                       (opt_member (ds ! i) ''requires_review'' = JBool True)
                   \<and> title (thread_drafts m ! i) =
                       nullish_or (opt_member (ds ! i) ''title'') (JStr ''Untitled'')
                   \<and> classification (thread_drafts m ! i) =
                       nullish_or (opt_member (ds ! i) ''classification'') (JStr ''TECH DEEP DIVE'')
                   \<and> thread_content (thread_drafts m ! i) =
                       nullish_or (opt_member (ds ! i) ''thread_content'') (JStr [])
                   \<and> hashtags (thread_drafts m ! i) =
                       nullish_or (opt_member (ds ! i) ''hashtags'') (JStr [])
                   \<and> hook (thread_drafts m ! i) =
                       nullish_or (opt_member (ds ! i) ''hook'') (JStr [])
                   \<and> review_reason (thread_drafts m ! i) =
                       nullish_or (opt_member (ds ! i) ''review_reason'') (JStr [])
                   \<and> source_url (thread_drafts m ! i) =
                       nullish_or (opt_member (ds ! i) ''source_url'') (JStr [])))
         \<and> pipeline_status m =
             nullish_or (get_prop candidate ''pipeline_status'') (JStr ''completed'')
         \<and> hn_total_fetched (hn_results m) =
             nullish_or (opt_member (get_prop candidate ''hn_results'') ''total_fetched'') (JNum 0)
         \<and> hn_total_filtered (hn_results m) =
             nullish_or (opt_member (get_prop candidate ''hn_results'') ''total_filtered'') (JNum 0)
         \<and> arxiv_total_fetched (arxiv_results m) =
             nullish_or (opt_member (get_prop candidate ''arxiv_results'') ''total_fetched'')
               (JNum 0)
         \<and> arxiv_total_filtered (arxiv_results m) =
             nullish_or (opt_member (get_prop candidate ''arxiv_results'') ''total_filtered'')
               (JNum 0)
         \<and> total_drafts m =
             nullish_or (get_prop candidate ''total_drafts'')
               (JNum (int (length (thread_drafts m))))
         \<and> auto_approved m = nullish_or (get_prop candidate ''auto_approved'') (JNum 0)
         \<and> flagged_for_review m =
             nullish_or (get_prop candidate ''flagged_for_review'') (JNum 0)
         \<and> scan_timestamp m = nullish_or (get_prop candidate ''scan_timestamp'') (JStr now)))
   \<and> extractAgentData parse
        (JObj [(''response'', JObj [(''result'',
           JObj [(''pipeline_status'', JStr ''completed''),
                 (''thread_drafts'', JArr [JObj [(''title'', JStr ''X'')]])])])])
        ''pipeline_status''
      = Some (JObj [(''pipeline_status'', JStr ''completed''),
                    (''thread_drafts'', JArr [JObj [(''title'', JStr ''X'')]])])
   \<and> (\<exists>d. map_option thread_drafts
              (sanitize now
                 (JObj [(''pipeline_status'', JStr ''completed''),
                        (''thread_drafts'', JArr [JObj [(''title'', JStr ''X'')]])]))
            = Some [d]
          \<and> td_id d = JStr ''draft-1'' \<and> relevance_score d = 50 \<and> \<not> requires_review d)"
  (is "(_ \<longrightarrow> ?general) \<and> ?extracted \<and> ?sanitized")
proof (intro conjI impI)
  assume nn: "\<not> nullish candidate"
  obtain m where m: "sanitize now candidate = Some m"
    using sanitize_Some[OF nn] by blast
  have score: "typeof v = ''string'' \<Longrightarrow> (case v of JNum n \<Rightarrow> n | _ \<Rightarrow> 50) = (50::int)" for v
    by (cases v) simp_all
  have each: "length (thread_drafts m) = length ds
           \<and> (\<forall>i < length ds. thread_drafts m ! i = sanitizeDraft (ds ! i) i)"
    if "get_prop candidate ''thread_drafts'' = JArr ds" for ds
    using sanitize_drafts(1)[OF nn m that] .
  have none: "thread_drafts m = []" if "\<not> isArray (get_prop candidate ''thread_drafts'')"
    using sanitize_drafts(2)[OF nn m that] .
  have total: "total_drafts m =
             nullish_or (get_prop candidate ''total_drafts'')
               (JNum (int (length (thread_drafts m))))"
  proof (cases "get_prop candidate ''thread_drafts''")
    case (JArr ds)
    show ?thesis using m each[OF JArr] unfolding sanitize_Some[OF nn] by (auto simp: JArr)
  qed (use m none in \<open>auto simp: sanitize_Some[OF nn]\<close>)
  have tops: "stories (hn_results m) =
             (case opt_member (get_prop candidate ''hn_results'') ''stories'' of
                JArr xs \<Rightarrow> xs | _ \<Rightarrow> [])"
      "papers (arxiv_results m) =
             (case opt_member (get_prop candidate ''arxiv_results'') ''papers'' of
                JArr xs \<Rightarrow> xs | _ \<Rightarrow> [])"
      "pipeline_status m =
             nullish_or (get_prop candidate ''pipeline_status'') (JStr ''completed'')"
      "hn_total_fetched (hn_results m) =
             nullish_or (opt_member (get_prop candidate ''hn_results'') ''total_fetched'') (JNum 0)"
      "hn_total_filtered (hn_results m) =
             nullish_or (opt_member (get_prop candidate ''hn_results'') ''total_filtered'') (JNum 0)"
      "arxiv_total_fetched (arxiv_results m) =
             nullish_or (opt_member (get_prop candidate ''arxiv_results'') ''total_fetched'')
               (JNum 0)"
      "arxiv_total_filtered (arxiv_results m) =
             nullish_or (opt_member (get_prop candidate ''arxiv_results'') ''total_filtered'')
               (JNum 0)"
      "auto_approved m = nullish_or (get_prop candidate ''auto_approved'') (JNum 0)"
      "flagged_for_review m =
             nullish_or (get_prop candidate ''flagged_for_review'') (JNum 0)"
      "scan_timestamp m = nullish_or (get_prop candidate ''scan_timestamp'') (JStr now)"
    using m unfolding sanitize_Some[OF nn] by auto
  show ?general
    using m none total tops each score
    by (intro exI[of _ m]) (simp add: sanitizeDraft_def nullish_or_def)
next
  show ?extracted
    by (simp add: extractAgentData_def opt_member_def isMatch_def)
next
  have one: "string_of_nat (Suc 0) = ''1''"
    by (simp add: string_of_nat.simps digit_char_def)
  show ?sanitized
    by (simp add: sanitize_Some sanitizeDraft_def enumerate_simps opt_member_def nullish_or_def one)
qed

theorem sanitize_total_and_defaults_witness:
  "\<not> nullish (JObj [(''thread_drafts'', JArr [JObj [(''relevance_score'', JStr ''90'')],
                                              JObj [(''id'', JNum 7)]])])
   \<and> (\<exists>m. sanitize ''2025-02-21T14:30:00Z''
             (JObj [(''thread_drafts'', JArr [JObj [(''relevance_score'', JStr ''90'')],
                                              JObj [(''id'', JNum 7)]])]) = Some m
         \<and> length (thread_drafts m) = 2
         \<and> relevance_score (thread_drafts m ! 0) = 50
         \<and> td_id (thread_drafts m ! 1) = JNum 7)"
proof -
  let ?ds = "[JObj [(''relevance_score'', JStr ''90'')], JObj [(''id'', JNum 7)]]"
  let ?c = "JObj [(''thread_drafts'', JArr ?ds)]"
  have h: "\<not> nullish ?c" by simp
  have g: "get_prop ?c ''thread_drafts'' = JArr ?ds" by simp
  obtain m where m: "sanitize ''2025-02-21T14:30:00Z'' ?c = Some m"
    and l: "length (thread_drafts m) = length ?ds"
    and e: "\<forall>i < length ?ds.
              td_id (thread_drafts m ! i) =
                (if nullish (opt_member (?ds ! i) ''id'')
                 then JStr (''draft-'' @ string_of_nat (i + 1))
                 else opt_member (?ds ! i) ''id'')
            \<and> relevance_score (thread_drafts m ! i) =
                (case opt_member (?ds ! i) ''relevance_score'' of JNum n \<Rightarrow> n | _ \<Rightarrow> 50)"
    using sanitize_total_and_defaults[of ?c "''2025-02-21T14:30:00Z''" sample_parse] h g
    by blast
  have "relevance_score (thread_drafts m ! 0) = 50"
    using e[rule_format, of 0] by (simp add: opt_member_def)
  moreover have "td_id (thread_drafts m ! 1) = JNum 7"
    using e[rule_format, of 1] by (simp add: opt_member_def)
  ultimately show ?thesis using h m l by simp
qed

subsection \<open>Outcome of a scan\<close>

lemma hasPipelineResults_eq:
  "hasPipelineResults M =
     Some (truthy M \<and> (isArray (get_prop M ''thread_drafts'') \<or> truthy (get_prop M ''hn_results'')
                        \<or> truthy (get_prop M ''arxiv_results'')))"
  using truthy_not_nullish[of M] by (auto simp: hasPipelineResults_def member_def)

lemma autoApprove_fold:
  "foldl (\<lambda>autoApproved d.
              if \<not> requires_review d \<and> relevance_score d \<ge> threshold
              then insert (td_id d) autoApproved else autoApproved) A ds
   = A \<union> {td_id d |d. d \<in> set ds \<and> \<not> requires_review d \<and> threshold \<le> relevance_score d}"
  by (induction ds arbitrary: A) auto

lemma autoApprove_set:
  "autoApprove threshold ds = {td_id d |d. d \<in> set ds \<and> \<not> requires_review d \<and> threshold \<le> relevance_score d}"
  by (simp add: autoApprove_def autoApprove_fold)

lemma scanResolved_success:
  assumes "truthy (opt_member result ''success'')"
  shows "\<exists>M. extractAgentData (JSON_parse eng) result ''pipeline_status'' = Some M
     \<and> (M = JNull \<or> isMatch ''pipeline_status'' M = Some True)
     \<and> scanResolved eng now result s =
        (if M \<noteq> JNull \<and> (isArray (get_prop M ''thread_drafts'') \<or> truthy (get_prop M ''hn_results'')
                        \<or> truthy (get_prop M ''arxiv_results''))
         then Some (s\<lparr> scanData := Some (the (sanitize now M)),
                        scanStatus := ScanCompleted,
                        scanStep := 5,
                        statusMessage :=
                          Some (MsgSuccess,
                            ''Scan complete! Found '' @ to_string (total_drafts (the (sanitize now M)))
                            @ '' thread drafts from ''
                            @ string_of_nat (length (stories (hn_results (the (sanitize now M)))))
                            @ '' HN stories and ''
                            @ string_of_nat (length (papers (arxiv_results (the (sanitize now M)))))
                            @ '' arXiv papers.''),
                        approvedDraftIds :=
                          autoApprove (autoApproveThreshold (settings s)) (thread_drafts (the (sanitize now M))) \<rparr>)
         else Some (s\<lparr> scanStatus := ScanFailed,
                      scanError :=
                        JStr (''Agent returned data but no structured pipeline results were found. Raw: ''
                              @ take 300 (rawText result)),
                      statusMessage :=
                        Some (MsgError, ''Scan returned unstructured data. Try running the scan again.'') \<rparr>))"
proof -
  obtain M where M: "extractAgentData (JSON_parse eng) result ''pipeline_status'' = Some M"
     "M = JNull \<or> isMatch ''pipeline_status'' M = Some True"
    using extract_shape by blast
  have nn: "\<not> nullish result" using assms by (auto simp: opt_member_def)
  then have s: "member result ''success'' = Some (opt_member result ''success'')"
    by (simp add: member_def opt_member_def)
  have t: "truthy M = (M \<noteq> JNull)" using M(2) isMatch_truthy by auto
  have san: "M \<noteq> JNull \<Longrightarrow> \<exists>m. sanitize now M = Some m"
    using sanitize_Some[of M now] t truthy_not_nullish by blast
  show ?thesis
    using M assms san
    by (intro exI[of _ M]) (auto simp: scanResolved_def s hasPipelineResults_eq t)
qed

lemma runScan_resolved:
  assumes "reply (agent (calls w) (scanMessage (settings (app w)), MANAGER_AGENT_ID)) = Resolved result"
    and "truthy (opt_member result ''success'')"
  shows "\<exists>M. extractAgentData (JSON_parse eng) result ''pipeline_status'' = Some M
     \<and> (M = JNull \<or> isMatch ''pipeline_status'' M = Some True)
     \<and> (if M \<noteq> JNull \<and> (isArray (get_prop M ''thread_drafts'') \<or> truthy (get_prop M ''hn_results'')
                        \<or> truthy (get_prop M ''arxiv_results''))
        then scanStatus (app (runScan eng agent w)) = ScanCompleted
        else scanStatus (app (runScan eng agent w)) = ScanFailed
           \<and> scanError (app (runScan eng agent w)) =
               JStr (''Agent returned data but no structured pipeline results were found. Raw: ''
                     @ take 300 (rawText result)))"
proof -
  let ?out = "agent (calls w) (scanMessage (settings (app w)), MANAGER_AGENT_ID)"
  let ?s1 = "(app w)\<lparr> scanStatus := ScanScanning, scanStep := 1, scanError := JNull,
                statusMessage := Some (MsgInfo, ''Intelligence scan in progress...''),
                activeAgentId := Some MANAGER_AGENT_ID,
                scanStep := stepShown (elapsed_ms ?out),
                lastRawResponse :=
                  Some (case JSON_stringify eng result of
                          Some t \<Rightarrow> take 5000 t
                        | None \<Rightarrow> ''Could not serialize response'') \<rparr>"
  obtain M where M: "extractAgentData (JSON_parse eng) result ''pipeline_status'' = Some M"
      "M = JNull \<or> isMatch ''pipeline_status'' M = Some True"
    and r: "scanResolved eng (finished_at ?out) result ?s1 =
        (if M \<noteq> JNull \<and> (isArray (get_prop M ''thread_drafts'') \<or> truthy (get_prop M ''hn_results'')
                        \<or> truthy (get_prop M ''arxiv_results''))
         then Some (?s1\<lparr> scanData := Some (the (sanitize (finished_at ?out) M)),
                        scanStatus := ScanCompleted,
                        scanStep := 5,
                        statusMessage :=
                          Some (MsgSuccess,
                            ''Scan complete! Found '' @ to_string (total_drafts (the (sanitize (finished_at ?out) M)))
                            @ '' thread drafts from ''
                            @ string_of_nat (length (stories (hn_results (the (sanitize (finished_at ?out) M)))))
                            @ '' HN stories and ''
                            @ string_of_nat (length (papers (arxiv_results (the (sanitize (finished_at ?out) M)))))
                            @ '' arXiv papers.''),
                        approvedDraftIds :=
                          autoApprove (autoApproveThreshold (settings ?s1)) (thread_drafts (the (sanitize (finished_at ?out) M))) \<rparr>)
         else Some (?s1\<lparr> scanStatus := ScanFailed,
                      scanError :=
                        JStr (''Agent returned data but no structured pipeline results were found. Raw: ''
                              @ take 300 (rawText result)),
                      statusMessage :=
                        Some (MsgError, ''Scan returned unstructured data. Try running the scan again.'') \<rparr>))"
    using scanResolved_success[OF assms(2), of eng "finished_at ?out" ?s1] by blast
  show ?thesis
    using M r assms(1)
    by (intro exI[of _ M]) (simp add: runScan_def Let_def)
qed

lemma runScan_status:
  "scanStatus (app (runScan eng agent w)) = ScanCompleted \<or> scanStatus (app (runScan eng agent w)) = ScanFailed"
  by (auto simp: runScan_def Let_def scanCaught_def scanResolved_def
        split: agent_reply.splits option.splits Option.bind_splits if_splits)

lemma runScan_completed:
  assumes "scanStatus (app (runScan eng agent w)) = ScanCompleted"
  shows "\<exists>m. scanData (app (runScan eng agent w)) = Some m
      \<and> approvedDraftIds (app (runScan eng agent w)) =
          autoApprove (autoApproveThreshold (settings (app w))) (thread_drafts m)"
  using assms
  by (auto simp: runScan_def Let_def scanCaught_def scanResolved_def
        split: agent_reply.splits option.splits Option.bind_splits if_splits)

lemma runScan_forgets_approvals:
  "approvedDraftIds (app (runScan eng agent (w\<lparr> app := (app w)\<lparr> approvedDraftIds := previous \<rparr> \<rparr>)))
   = (if scanStatus (app (runScan eng agent w)) = ScanCompleted
      then approvedDraftIds (app (runScan eng agent w)) else previous)"
  by (auto simp: runScan_def Let_def scanCaught_def scanResolved_def
        split: agent_reply.splits option.splits Option.bind_splits if_splits)

text \<open>
  C1 as stated fails: the marker field alone does not complete the scan. The reply
  \<open>{success: true, response: {result: {pipeline_status: "completed"}}}\<close> carries the
  marker, the extractor returns its inner object, a plausible match in the stated sense,
  and the scan fails.
\<close>

theorem runScan_marker_alone_counterexample:
  "extractAgentData (JSON_parse sample_engine)
     (JObj [(''success'', JBool True),
            (''response'', JObj [(''result'', JObj [(''pipeline_status'', JStr ''completed'')])])])
     ''pipeline_status''
   = Some (JObj [(''pipeline_status'', JStr ''completed'')])
   \<and> plausible_match_stated (JObj [(''pipeline_status'', JStr ''completed'')])
   \<and> scanStatus (app (runScan sample_engine
        (agent_replying (Resolved
           (JObj [(''success'', JBool True),
                  (''response'',
                   JObj [(''result'', JObj [(''pipeline_status'', JStr ''completed'')])])])))
        initial_world))
     = ScanFailed"
  by code_simp

text \<open>
  C1, amended. When the agent call resolves to a result whose \<open>success\<close> is truthy, the
  scan ends completed exactly when the extractor returned an object, which then carries
  the marker field \<open>pipeline_status\<close>, and that object has an array as
  \<open>thread_drafts\<close>, or a truthy \<open>hn_results\<close>, or a truthy \<open>arxiv_results\<close>.
  Otherwise it ends failed, and the error is a fixed sentence followed by the returned
  free text cut to at most 300 characters.
\<close>

theorem runScan_completed_iff:
  assumes "reply (agent (calls w) (scanMessage (settings (app w)), MANAGER_AGENT_ID))
             = Resolved result"
    and "truthy (opt_member result ''success'')"
  shows "\<exists>M. extractAgentData (JSON_parse eng) result ''pipeline_status'' = Some M
     \<and> (scanStatus (app (runScan eng agent w)) = ScanCompleted \<longleftrightarrow>
          (\<exists>kvs. M = JObj kvs \<and> ''pipeline_status'' \<in> fst ` set kvs)
          \<and> (isArray (get_prop M ''thread_drafts'') \<or> truthy (get_prop M ''hn_results'')
               \<or> truthy (get_prop M ''arxiv_results'')))
     \<and> (scanStatus (app (runScan eng agent w)) \<noteq> ScanCompleted \<longrightarrow>
          scanStatus (app (runScan eng agent w)) = ScanFailed
          \<and> scanError (app (runScan eng agent w)) =
              JStr (''Agent returned data but no structured pipeline results were found. Raw: ''
                    @ take 300 (rawText result))
          \<and> length (take 300 (rawText result)) \<le> 300)"
proof -
  obtain M where M: "extractAgentData (JSON_parse eng) result ''pipeline_status'' = Some M"
      "M = JNull \<or> isMatch ''pipeline_status'' M = Some True"
    and r: "if M \<noteq> JNull \<and> (isArray (get_prop M ''thread_drafts'')
                \<or> truthy (get_prop M ''hn_results'') \<or> truthy (get_prop M ''arxiv_results''))
        then scanStatus (app (runScan eng agent w)) = ScanCompleted
        else scanStatus (app (runScan eng agent w)) = ScanFailed
           \<and> scanError (app (runScan eng agent w)) =
               JStr (''Agent returned data but no structured pipeline results were found. Raw: ''
                     @ take 300 (rawText result))"
    using runScan_resolved[where agent = agent and w = w and eng = eng, OF assms] by blast
  have obj: "M \<noteq> JNull \<longleftrightarrow> (\<exists>kvs. M = JObj kvs \<and> ''pipeline_status'' \<in> fst ` set kvs)"
    using M(2) by (auto simp: isMatch_True_iff)
  show ?thesis
  proof (intro exI[of _ M] conjI)
    show "extractAgentData (JSON_parse eng) result ''pipeline_status'' = Some M" by fact
    show "scanStatus (app (runScan eng agent w)) = ScanCompleted \<longleftrightarrow>
          (\<exists>kvs. M = JObj kvs \<and> ''pipeline_status'' \<in> fst ` set kvs)
          \<and> (isArray (get_prop M ''thread_drafts'') \<or> truthy (get_prop M ''hn_results'')
               \<or> truthy (get_prop M ''arxiv_results''))"
      using r unfolding obj[symmetric] by (auto split: if_splits)
    show "scanStatus (app (runScan eng agent w)) \<noteq> ScanCompleted \<longrightarrow>
          scanStatus (app (runScan eng agent w)) = ScanFailed
          \<and> scanError (app (runScan eng agent w)) =
              JStr (''Agent returned data but no structured pipeline results were found. Raw: ''
                    @ take 300 (rawText result))
          \<and> length (take 300 (rawText result)) \<le> 300"
      using r by (auto split: if_splits)
  qed
qed

theorem runScan_completed_iff_witness:
  "truthy (opt_member
     (JObj [(''success'', JBool True),
            (''response'', JObj [(''result'',
               JObj [(''pipeline_status'', JStr ''completed''), (''thread_drafts'', JArr [])])])])
     ''success'')
   \<and> scanStatus (app (runScan sample_engine
        (agent_replying (Resolved
           (JObj [(''success'', JBool True),
                  (''response'', JObj [(''result'',
                     JObj [(''pipeline_status'', JStr ''completed''),
                           (''thread_drafts'', JArr [])])])])))
        initial_world))
     = ScanCompleted
   \<and> truthy (opt_member
     (JObj [(''success'', JBool True), (''response'', JObj [(''message'', JStr ''Sorry'')])])
     ''success'')
   \<and> scanError (app (runScan sample_engine
        (agent_replying (Resolved
           (JObj [(''success'', JBool True),
                  (''response'', JObj [(''message'', JStr ''Sorry'')])])))
        initial_world))
     = JStr ''Agent returned data but no structured pipeline results were found. Raw: Sorry''"
proof -
  let ?M = "JObj [(''pipeline_status'', JStr ''completed''), (''thread_drafts'', JArr [])]"
  let ?result = "JObj [(''success'', JBool True), (''response'', JObj [(''result'', ?M)])]"
  let ?agent = "agent_replying (Resolved ?result)"
  let ?free = "JObj [(''success'', JBool True), (''response'', JObj [(''message'', JStr ''Sorry'')])]"
  let ?agent' = "agent_replying (Resolved ?free)"
  have a: "reply (?agent (calls initial_world)
             (scanMessage (settings (app initial_world)), MANAGER_AGENT_ID)) = Resolved ?result"
    by (simp add: agent_replying_def)
  have b: "truthy (opt_member ?result ''success'')"
    by (simp add: opt_member_def)
  have e: "extractAgentData (JSON_parse sample_engine) ?result ''pipeline_status'' = Some ?M"
    by code_simp
  have g: "(\<exists>kvs. ?M = JObj kvs \<and> ''pipeline_status'' \<in> fst ` set kvs)
          \<and> (isArray (get_prop ?M ''thread_drafts'') \<or> truthy (get_prop ?M ''hn_results'')
               \<or> truthy (get_prop ?M ''arxiv_results''))"
    by simp
  have completed: "scanStatus (app (runScan sample_engine ?agent initial_world)) = ScanCompleted"
    using runScan_completed_iff
        [where agent = ?agent and w = initial_world and eng = sample_engine, OF a b] e g
    by auto
  have a': "reply (?agent' (calls initial_world)
             (scanMessage (settings (app initial_world)), MANAGER_AGENT_ID)) = Resolved ?free"
    by (simp add: agent_replying_def)
  have b': "truthy (opt_member ?free ''success'')"
    by (simp add: opt_member_def)
  have e': "extractAgentData (JSON_parse sample_engine) ?free ''pipeline_status'' = Some JNull"
    by code_simp
  have t: "take 300 (rawText ?free) = ''Sorry''"
    by (simp add: rawText_def opt_member_def)
  have "scanError (app (runScan sample_engine ?agent' initial_world)) =
          JStr (''Agent returned data but no structured pipeline results were found. Raw: ''
                @ take 300 (rawText ?free))"
    using runScan_completed_iff
        [where agent = ?agent' and w = initial_world and eng = sample_engine, OF a' b'] e'
    by auto
  then show ?thesis using b b' completed unfolding t by simp
qed

subsection \<open>Automatic approval\<close>

text \<open>
  C4. After every completed scan the approval set is exactly the set of the ids of the
  drafts of that scan's sanitized list that do not require review and whose score is at
  least the threshold; it does not depend on the ids approved before. So a draft with no
  review required and score 80 has its id in the set when the threshold is 75, and, no
  other draft of the list having the same id, not in it when the threshold is 85.
\<close>

theorem completed_scan_approvals:
  assumes "scanStatus (app (runScan eng agent w)) = ScanCompleted"
  shows "\<exists>m. scanData (app (runScan eng agent w)) = Some m
     \<and> approvedDraftIds (app (runScan eng agent w)) =
         {td_id d |d. d \<in> set (thread_drafts m) \<and> \<not> requires_review d
                      \<and> autoApproveThreshold (settings (app w)) \<le> relevance_score d}
     \<and> approvedDraftIds
         (app (runScan eng agent (w\<lparr> app := (app w)\<lparr> approvedDraftIds := previous \<rparr> \<rparr>)))
       = approvedDraftIds (app (runScan eng agent w))
     \<and> (\<forall>d \<in> set (thread_drafts m). \<not> requires_review d \<and> relevance_score d = 80 \<longrightarrow>
          (autoApproveThreshold (settings (app w)) = 75 \<longrightarrow>
             td_id d \<in> approvedDraftIds (app (runScan eng agent w)))
        \<and> (autoApproveThreshold (settings (app w)) = 85
             \<and> (\<forall>d' \<in> set (thread_drafts m). td_id d' = td_id d \<longrightarrow> d' = d) \<longrightarrow>
             td_id d \<notin> approvedDraftIds (app (runScan eng agent w))))"
proof -
  obtain m where m: "scanData (app (runScan eng agent w)) = Some m"
    and a: "approvedDraftIds (app (runScan eng agent w)) =
         {td_id d |d. d \<in> set (thread_drafts m) \<and> \<not> requires_review d
                      \<and> autoApproveThreshold (settings (app w)) \<le> relevance_score d}"
    using runScan_completed[OF assms] by (auto simp: autoApprove_set)
  have f: "approvedDraftIds
         (app (runScan eng agent (w\<lparr> app := (app w)\<lparr> approvedDraftIds := previous \<rparr> \<rparr>)))
       = approvedDraftIds (app (runScan eng agent w))"
    using runScan_forgets_approvals[where eng = eng and agent = agent and w = w
        and previous = previous] assms by simp
  have x: "\<forall>d \<in> set (thread_drafts m). \<not> requires_review d \<and> relevance_score d = 80 \<longrightarrow>
          (autoApproveThreshold (settings (app w)) = 75 \<longrightarrow>
             td_id d \<in> approvedDraftIds (app (runScan eng agent w)))
        \<and> (autoApproveThreshold (settings (app w)) = 85
             \<and> (\<forall>d' \<in> set (thread_drafts m). td_id d' = td_id d \<longrightarrow> d' = d) \<longrightarrow>
             td_id d \<notin> approvedDraftIds (app (runScan eng agent w)))"
    unfolding a by auto
  show ?thesis using m a f x by blast
qed

theorem completed_scan_approvals_witness:
  "scanStatus (app (runScan sample_engine
      (agent_replying (Resolved
         (JObj [(''success'', JBool True),
                (''response'', JObj [(''result'',
                   JObj [(''pipeline_status'', JStr ''completed''),
                         (''thread_drafts'',
                          JArr [JObj [(''id'', JStr ''a''), (''relevance_score'', JNum 80)]])])])])))
      (initial_world\<lparr> app := (app initial_world)\<lparr> approvedDraftIds := {JStr ''old''} \<rparr> \<rparr>)))
   = ScanCompleted
   \<and> approvedDraftIds (app (runScan sample_engine
      (agent_replying (Resolved
         (JObj [(''success'', JBool True),
                (''response'', JObj [(''result'',
                   JObj [(''pipeline_status'', JStr ''completed''),
                         (''thread_drafts'',
                          JArr [JObj [(''id'', JStr ''a''), (''relevance_score'', JNum 80)]])])])])))
      (initial_world\<lparr> app := (app initial_world)\<lparr> approvedDraftIds := {JStr ''old''} \<rparr> \<rparr>)))
   = {JStr ''a''}
   \<and> scanStatus (app (runScan sample_engine
      (agent_replying (Resolved
         (JObj [(''success'', JBool True),
                (''response'', JObj [(''result'',
                   JObj [(''pipeline_status'', JStr ''completed''),
                         (''thread_drafts'',
                          JArr [JObj [(''id'', JStr ''a''), (''relevance_score'', JNum 80)]])])])])))
      (initial_world\<lparr> app := (app initial_world)
         \<lparr> settings := DEFAULT_SETTINGS\<lparr> autoApproveThreshold := 85 \<rparr> \<rparr> \<rparr>)))
   = ScanCompleted
   \<and> approvedDraftIds (app (runScan sample_engine
      (agent_replying (Resolved
         (JObj [(''success'', JBool True),
                (''response'', JObj [(''result'',
                   JObj [(''pipeline_status'', JStr ''completed''),
                         (''thread_drafts'',
                          JArr [JObj [(''id'', JStr ''a''), (''relevance_score'', JNum 80)]])])])])))
      (initial_world\<lparr> app := (app initial_world)
         \<lparr> settings := DEFAULT_SETTINGS\<lparr> autoApproveThreshold := 85 \<rparr> \<rparr> \<rparr>)))
   = {}"
proof -
  let ?agent = "agent_replying (Resolved
         (JObj [(''success'', JBool True),
                (''response'', JObj [(''result'',
                   JObj [(''pipeline_status'', JStr ''completed''),
                         (''thread_drafts'',
                          JArr [JObj [(''id'', JStr ''a''), (''relevance_score'', JNum 80)]])])])]))"
  let ?w75 = "initial_world\<lparr> app := (app initial_world)\<lparr> approvedDraftIds := {JStr ''old''} \<rparr> \<rparr>"
  let ?w85 = "initial_world\<lparr> app := (app initial_world)
         \<lparr> settings := DEFAULT_SETTINGS\<lparr> autoApproveThreshold := 85 \<rparr> \<rparr> \<rparr>"
  let ?d = "sanitizeDraft (JObj [(''id'', JStr ''a''), (''relevance_score'', JNum 80)]) 0"
  have d: "td_id ?d = JStr ''a''" "\<not> requires_review ?d" "relevance_score ?d = 80"
    by (simp_all add: sanitizeDraft_def opt_member_def nullish_or_def)
  have h75: "scanStatus (app (runScan sample_engine ?agent ?w75)) = ScanCompleted"
    by code_simp
  have m75: "map_option thread_drafts (scanData (app (runScan sample_engine ?agent ?w75)))
               = Some [?d]"
    by code_simp
  have t75: "autoApproveThreshold (settings (app ?w75)) = 75"
    by (simp add: initial_world_def initial_state_def DEFAULT_SETTINGS_def)
  have h85: "scanStatus (app (runScan sample_engine ?agent ?w85)) = ScanCompleted"
    by code_simp
  have m85: "map_option thread_drafts (scanData (app (runScan sample_engine ?agent ?w85)))
               = Some [?d]"
    by code_simp
  have t85: "autoApproveThreshold (settings (app ?w85)) = 85"
    by (simp add: initial_world_def initial_state_def DEFAULT_SETTINGS_def)
  have "approvedDraftIds (app (runScan sample_engine ?agent ?w75)) = {JStr ''a''}"
    using completed_scan_approvals[OF h75, where previous = "{}"] m75 t75 d by auto
  moreover have "approvedDraftIds (app (runScan sample_engine ?agent ?w85)) = {}"
    using completed_scan_approvals[OF h85, where previous = "{}"] m85 t85 d by auto
  ultimately show ?thesis using h75 h85 by simp
qed

section \<open>Properties of the publish handlers\<close>

subsection \<open>What a publish does to the history\<close>

lemma publishThread_noop:
  "\<not> truthy (nullish_or (td_id draft) (JStr [])) \<Longrightarrow> publishThread eng agent draft w = w"
  by (simp add: publishThread_def)
















subsection \<open>Status of a published draft\<close>



subsection \<open>Drafts without id, one record per id, bulk publish\<close>

text \<open>
  C10. \<open>publishThread\<close> on a draft whose id is missing, null or the empty string does
  nothing: the world is the same afterwards, so no agent call was made, and the publish
  history, the ids being published and the active agent are as before.
\<close>

theorem publishThread_without_id:
  assumes "nullish (td_id draft) \<or> td_id draft = JStr []"
  shows "publishThread eng agent draft w = w
     \<and> calls (publishThread eng agent draft w) = calls w
     \<and> publishHistory (app (publishThread eng agent draft w)) = publishHistory (app w)
     \<and> publishingIds (app (publishThread eng agent draft w)) = publishingIds (app w)
     \<and> activeAgentId (app (publishThread eng agent draft w)) = activeAgentId (app w)"
proof -
  have "\<not> truthy (nullish_or (td_id draft) (JStr []))"
    using assms by (auto simp: nullish_or_def)
  then show ?thesis by (simp add: publishThread_noop)
qed

theorem publishThread_without_id_witness:
  "(nullish (td_id (sample_draft JUndefined)) \<or> td_id (sample_draft JUndefined) = JStr [])
   \<and> publishThread sample_engine (agent_replying (Rejected OtherThrown))
        (sample_draft JUndefined) sample_world = sample_world"
proof -
  have h: "nullish (td_id (sample_draft JUndefined)) \<or> td_id (sample_draft JUndefined) = JStr []"
    by (simp add: sample_draft_def)
  show ?thesis
    using publishThread_without_id[OF h, of sample_engine "agent_replying (Rejected OtherThrown)"
        sample_world] h
    by blast
qed






end
